theory Spec2Isabelle
  imports Complex_Main
begin

section \<open>Conventions of the embedding\<close>

text \<open>
  The repository is three Python modules: \<^verbatim>\<open>analog_simulator.py\<close>,
  \<^verbatim>\<open>digital_resource_estimator.py\<close> and \<^verbatim>\<open>report_generator.py\<close>. Every quantity
  they compute is closed-form arithmetic on Python \<^verbatim>\<open>float\<close> and \<^verbatim>\<open>int\<close> values.

  \<^item> A Python \<^verbatim>\<open>int\<close> is an \<^typ>\<open>int\<close>.
  \<^item> \<^verbatim>\<open>Optional[T]\<close> is \<^typ>\<open>'a option\<close>.
  \<^item> An exception is the left summand of a result \<^typ>\<open>'e + 'a\<close>; Python's true
    division raises \<^verbatim>\<open>ZeroDivisionError\<close> on a zero divisor, where HOL's \<open>x / 0\<close>
    is \<open>0\<close>, so every division of the source is guarded in the model.
  \<^item> A Python \<^verbatim>\<open>float\<close> is an IEEE 754 binary64 number. The program is translated
    twice, over the same records (which take the type of their float fields as a
    parameter):
    \<^item> in \<^emph>\<open>exact arithmetic\<close>, with \<^typ>\<open>real\<close> for \<^verbatim>\<open>float\<close>: no rounding, no
      infinity and no NaN. This translation carries the properties that rounding
      cannot change: which exception a call raises, which fields an output reads, and
      the wall-clock formula with its bound;
    \<^item> in \<^emph>\<open>binary64 arithmetic\<close>, with the type \<open>float64\<close> below: every
      operation rounds to the nearest double, ties to even, overflows to an infinity
      and propagates NaN. Its functions carry the suffix \<open>_f64\<close>. This translation
      carries the properties whose truth depends on the rounding.
\<close>

datatype value_error_msg =
    BelowThreshold      \<comment> \<open>"Physical error rate (p) must be below threshold (p_th)"\<close>
  | T1LengthMismatch    \<comment> \<open>"Number of T1 times (..) must match circuit width (..)"\<close>
  | NanToInteger        \<comment> \<open>"cannot convert float NaN to integer"\<close>

datatype py_error =
    ValueError value_error_msg
  | ZeroDivisionError
  | TypeError           \<comment> \<open>arithmetic on, or iteration over, \<^verbatim>\<open>None\<close>\<close>
  | OverflowError       \<comment> \<open>"cannot convert float infinity to integer",
                            "int too large to convert to float"\<close>

definition bind_result :: "py_error + 'a \<Rightarrow> ('a \<Rightarrow> py_error + 'b) \<Rightarrow> py_error + 'b" where
  "bind_result r f = (case r of Inl e \<Rightarrow> Inl e | Inr v \<Rightarrow> f v)"

definition require :: "'a option \<Rightarrow> py_error + 'a" where
  \<comment> \<open>Reading a field that still holds \<^verbatim>\<open>None\<close> into an arithmetic operation.\<close>
  "require x = (case x of None \<Rightarrow> Inl TypeError | Some v \<Rightarrow> Inr v)"

definition py_int :: "real \<Rightarrow> int" where
  \<comment> \<open>Python's \<^verbatim>\<open>int(x)\<close> on a finite float: truncation toward zero.\<close>
  "py_int x = (if 0 \<le> x then \<lfloor>x\<rfloor> else \<lceil>x\<rceil>)"

definition round_half_even :: "real \<Rightarrow> int" where
  \<comment> \<open>The nearest integer, a tie going to the even neighbour.\<close>
  "round_half_even y =
     (let f = \<lfloor>y\<rfloor>; r = y - of_int f
      in if r < 1 / 2 then f else if 1 / 2 < r then f + 1
         else if even f then f else f + 1)"


section \<open>Exact arithmetic\<close>

definition py_truediv :: "real \<Rightarrow> real \<Rightarrow> py_error + real" where
  \<comment> \<open>Python's \<^verbatim>\<open>a / b\<close>.\<close>
  "py_truediv a b = (if b = 0 then Inl ZeroDivisionError else Inr (a / b))"


definition np_log :: "real \<Rightarrow> real option" where
  \<comment> \<open>\<^verbatim>\<open>np.log\<close>: the logarithm of a positive float, NaN (\<open>None\<close>) otherwise. Both
      arguments it receives below are quotients with a non-zero numerator, so the
      value \<^verbatim>\<open>-inf\<close> at zero never arises.\<close>
  "np_log x = (if 0 < x then Some (ln x) else None)"


section \<open>Binary64 arithmetic\<close>

text \<open>
  A finite double is an integer multiple of the quantum of its binade: a number of
  magnitude in \<open>[2^e, 2^(e+1))\<close> has the quantum \<open>2^(e-52)\<close>, and below \<open>2^(-1022)\<close>
  (the subnormal range) the quantum stays \<open>2^(-1074)\<close>. Rounding to nearest, ties to
  even, rounds the quotient by the quantum to an integer; a result of magnitude
  \<open>2^1024\<close> or more becomes an infinity. The sign of a zero is not modelled: the
  program never reads it (Python raises on a division by either zero).
\<close>

definition binade :: "real \<Rightarrow> int" where
  "binade x = \<lfloor>log 2 \<bar>x\<bar>\<rfloor>"

definition quantum :: "real \<Rightarrow> real" where
  "quantum x = 2 powi (max (binade x) (- 1022) - 52)"

definition rne :: "real \<Rightarrow> real" where
  "rne x = of_int (round_half_even (x / quantum x)) * quantum x"

datatype float64 = Fin real | PInf | NInf | NaN

definition f64_huge :: real where
  "f64_huge = 2 powi 1024"

definition f64_tiny :: real where
  \<comment> \<open>The smallest positive double, \<^verbatim>\<open>5e-324\<close>.\<close>
  "f64_tiny = 2 powi (- 1074)"

definition fl :: "real \<Rightarrow> float64" where
  "fl x = (let r = rne x
           in if f64_huge \<le> r then PInf else if r \<le> - f64_huge then NInf else Fin r)"

fun f64_neg :: "float64 \<Rightarrow> float64" where
  "f64_neg (Fin x) = Fin (- x)"
| "f64_neg PInf = NInf"
| "f64_neg NInf = PInf"
| "f64_neg NaN = NaN"

fun f64_add :: "float64 \<Rightarrow> float64 \<Rightarrow> float64" where
  "f64_add (Fin x) (Fin y) = fl (x + y)"
| "f64_add NaN b = NaN"
| "f64_add a NaN = NaN"
| "f64_add PInf NInf = NaN"
| "f64_add NInf PInf = NaN"
| "f64_add PInf b = PInf"
| "f64_add a PInf = PInf"
| "f64_add NInf b = NInf"
| "f64_add a NInf = NInf"

definition f64_sub :: "float64 \<Rightarrow> float64 \<Rightarrow> float64" where
  "f64_sub a b = f64_add a (f64_neg b)"

fun f64_mul :: "float64 \<Rightarrow> float64 \<Rightarrow> float64" where
  "f64_mul (Fin x) (Fin y) = fl (x * y)"
| "f64_mul NaN b = NaN"
| "f64_mul a NaN = NaN"
| "f64_mul (Fin x) b = (if x = 0 then NaN else if 0 < x then b else f64_neg b)"
| "f64_mul a (Fin y) = (if y = 0 then NaN else if 0 < y then a else f64_neg a)"
| "f64_mul a b = (if a = b then PInf else NInf)"

fun f64_div :: "float64 \<Rightarrow> float64 \<Rightarrow> float64" where
  \<comment> \<open>IEEE division, as \<^verbatim>\<open>numpy\<close> scalars perform it: a zero divisor gives an
      infinity or NaN and no exception.\<close>
  "f64_div (Fin x) (Fin y) =
     (if y = 0 then (if x = 0 then NaN else if 0 < x then PInf else NInf) else fl (x / y))"
| "f64_div NaN b = NaN"
| "f64_div a NaN = NaN"
| "f64_div (Fin x) b = Fin 0"
| "f64_div a (Fin y) = (if 0 \<le> y then a else f64_neg a)"
| "f64_div a b = NaN"

fun f64_le :: "float64 \<Rightarrow> float64 \<Rightarrow> bool" where
  \<comment> \<open>\<^verbatim>\<open>a <= b\<close>; every comparison with NaN is false.\<close>
  "f64_le (Fin x) (Fin y) = (x \<le> y)"
| "f64_le NaN b = False"
| "f64_le a NaN = False"
| "f64_le NInf b = True"
| "f64_le a PInf = True"
| "f64_le a b = False"

definition py_truediv_f64 :: "float64 \<Rightarrow> float64 \<Rightarrow> py_error + float64" where
  \<comment> \<open>Python's \<^verbatim>\<open>a / b\<close> on two floats.\<close>
  "py_truediv_f64 a b = (if b = Fin 0 then Inl ZeroDivisionError else Inr (f64_div a b))"

definition float_of_int :: "int \<Rightarrow> py_error + float64" where
  \<comment> \<open>The conversion Python applies to the \<^verbatim>\<open>int\<close> operand of a mixed operation.\<close>
  "float_of_int n =
     (let r = rne (of_int n)
      in if f64_huge \<le> \<bar>r\<bar> then Inl OverflowError else Inr (Fin r))"

fun py_int_f64 :: "float64 \<Rightarrow> py_error + int" where
  \<comment> \<open>\<^verbatim>\<open>int(x)\<close>.\<close>
  "py_int_f64 (Fin x) = Inr (py_int x)"
| "py_int_f64 NaN = Inl (ValueError NanToInteger)"
| "py_int_f64 a = Inl OverflowError"

text \<open>
  \<^verbatim>\<open>numpy\<close> is not part of the repository. Its \<^verbatim>\<open>log\<close> and \<^verbatim>\<open>exp\<close> are taken to be
  correctly rounded (the nearest double to the exact value), with the IEEE values at
  zero, at the infinities and at NaN; \<^verbatim>\<open>ceil\<close> is exact.
\<close>

fun np_log_f64 :: "float64 \<Rightarrow> float64" where
  "np_log_f64 (Fin x) = (if 0 < x then fl (ln x) else if x = 0 then NInf else NaN)"
| "np_log_f64 PInf = PInf"
| "np_log_f64 a = NaN"


fun np_ceil_f64 :: "float64 \<Rightarrow> float64" where
  "np_ceil_f64 (Fin x) = Fin (of_int \<lceil>x\<rceil>)"
| "np_ceil_f64 a = a"


section \<open>analog\_simulator.py\<close>

record 'f AnalogSimulatorConfig =
  circuit_width :: int
  qubit_t1_times :: "'f list option"
  default_t1 :: 'f
  measurement_error_rate :: 'f
  target_fidelity :: 'f
  max_runtime_multiplier :: 'f

definition AnalogSimulatorConfig_post_init ::
  "'f AnalogSimulatorConfig \<Rightarrow> py_error + 'f AnalogSimulatorConfig" where
  \<comment> \<open>\<^verbatim>\<open>[x] * n\<close> is the empty list for \<open>n \<le> 0\<close>.\<close>
  "AnalogSimulatorConfig_post_init c =
     (case qubit_t1_times c of
        None \<Rightarrow> Inr (c\<lparr>qubit_t1_times := Some (replicate (nat (circuit_width c)) (default_t1 c))\<rparr>)
      | Some ts \<Rightarrow>
          if int (length ts) \<noteq> circuit_width c then Inl (ValueError T1LengthMismatch)
          else Inr c)"

record 'f AnalogSimulator =
  sim_config :: "'f AnalogSimulatorConfig"
  system_t1 :: 'f
  feasible_runtime :: 'f

subsection \<open>In exact arithmetic\<close>

fun reciprocal_sum :: "real \<Rightarrow> real list \<Rightarrow> py_error + real" where
  \<comment> \<open>\<^verbatim>\<open>sum(1.0 / t1 for t1 in qubit_t1_times)\<close>, accumulating from the left.\<close>
  "reciprocal_sum acc [] = Inr acc"
| "reciprocal_sum acc (t1 # ts) =
     (if t1 = 0 then Inl ZeroDivisionError else reciprocal_sum (acc + 1 / t1) ts)"

definition calculate_system_t1 :: "real AnalogSimulatorConfig \<Rightarrow> py_error + real" where
  "calculate_system_t1 c =
     bind_result (require (qubit_t1_times c)) (\<lambda>ts.
     bind_result (reciprocal_sum 0 ts) (\<lambda>s.
     py_truediv 1 s))"

definition calculate_feasible_runtime :: "real AnalogSimulatorConfig \<Rightarrow> real \<Rightarrow> real" where
  "calculate_feasible_runtime c t1 = t1 * max_runtime_multiplier c"

definition AnalogSimulator_init ::
  "real AnalogSimulatorConfig \<Rightarrow> py_error + real AnalogSimulator" where
  "AnalogSimulator_init c =
     bind_result (calculate_system_t1 c) (\<lambda>t1.
     Inr \<lparr>sim_config = c, system_t1 = t1,
          feasible_runtime = calculate_feasible_runtime c t1\<rparr>)"

definition new_AnalogSimulator ::
  "real AnalogSimulatorConfig \<Rightarrow> py_error + real AnalogSimulator" where
  \<comment> \<open>\<^verbatim>\<open>AnalogSimulator(AnalogSimulatorConfig(...))\<close>: the dataclass runs
      \<^verbatim>\<open>__post_init__\<close>, then the simulator is built from the result.\<close>
  "new_AnalogSimulator c = bind_result (AnalogSimulatorConfig_post_init c) AnalogSimulator_init"

definition get_decoherence_error ::
  "real AnalogSimulator \<Rightarrow> real option \<Rightarrow> py_error + real" where
  "get_decoherence_error s runtime =
     (let r = (case runtime of None \<Rightarrow> feasible_runtime s | Some r \<Rightarrow> r)
      in bind_result (py_truediv (- r) (system_t1 s)) (\<lambda>q. Inr (1 - exp q)))"

definition get_total_error ::
  "real AnalogSimulator \<Rightarrow> real option \<Rightarrow> py_error + real" where
  "get_total_error s runtime = get_decoherence_error s runtime"

definition get_fidelity ::
  "real AnalogSimulator \<Rightarrow> real option \<Rightarrow> py_error + real" where
  "get_fidelity s runtime = bind_result (get_total_error s runtime) (\<lambda>e. Inr (1 - e))"


subsection \<open>In binary64 arithmetic\<close>










section \<open>digital\_resource\_estimator.py\<close>

record 'f DigitalResourceConfig =
  logical_qubits :: int
  target_runtime :: 'f
  digital_error_rate :: 'f
  target_logical_error_rate :: 'f
  code_distance :: "int option"
  qubits_per_logical :: "int option"
  magic_state_error_threshold :: 'f
  t_gate_count :: int
  magic_state_overhead_factor :: 'f
  compilation_overhead_factor :: 'f
  physical_gate_time :: 'f
  logical_gate_time :: "'f option"
  error_correction_cycle_time :: "'f option"

definition calculate_qubits_per_logical :: "'f DigitalResourceConfig \<Rightarrow> py_error + int" where
  "calculate_qubits_per_logical c =
     bind_result (require (code_distance c)) (\<lambda>d. Inr (2 * d ^ 2))"

record 'f DigitalResourceEstimator =
  est_config :: "'f DigitalResourceConfig"
  data_qubits :: int
  magic_state_qubits :: int
  compilation_qubits :: int
  total_physical_qubits :: int
  logical_gate_count :: int
  space_time_volume :: 'f

subsection \<open>In exact arithmetic\<close>

definition DigitalResourceConfig_defaults ::
  "int \<Rightarrow> real \<Rightarrow> real \<Rightarrow> real DigitalResourceConfig" where
  \<comment> \<open>The three required fields, and the field defaults of the dataclass.\<close>
  "DigitalResourceConfig_defaults lq runtime p =
     \<lparr>logical_qubits = lq, target_runtime = runtime, digital_error_rate = p,
      target_logical_error_rate = 1 / 10 ^ 10, code_distance = None,
      qubits_per_logical = None, magic_state_error_threshold = 1 / 1000,
      t_gate_count = 100, magic_state_overhead_factor = 2,
      compilation_overhead_factor = 3 / 2, physical_gate_time = 1 / 10,
      logical_gate_time = None, error_correction_cycle_time = None\<rparr>"

definition calculate_code_distance :: "real DigitalResourceConfig \<Rightarrow> py_error + int" where
  "calculate_code_distance c =
     (let p = digital_error_rate c; p_L = target_logical_error_rate c; p_th = 1 / 100
      in if p \<ge> p_th then Inl (ValueError BelowThreshold)
         else
           bind_result (py_truediv p_th p) (\<lambda>q.
           let log_ratio = np_log q
           in bind_result (py_truediv 1 p_L) (\<lambda>inv.
              case (np_log inv, log_ratio) of
                (Some a, Some b) \<Rightarrow>
                  (let d = \<lceil>2 * a / b\<rceil>;
                       d = (if d mod 2 = 0 then d + 1 else d)
                   in Inr (max d 3))
              | _ \<Rightarrow> Inl (ValueError NanToInteger))))"

definition DigitalResourceConfig_post_init ::
  "real DigitalResourceConfig \<Rightarrow> py_error + real DigitalResourceConfig" where
  "DigitalResourceConfig_post_init c =
     bind_result
       (case code_distance c of
          None \<Rightarrow> bind_result (calculate_code_distance c) (\<lambda>d. Inr (c\<lparr>code_distance := Some d\<rparr>))
        | Some _ \<Rightarrow> Inr c) (\<lambda>c1.
     bind_result
       (case qubits_per_logical c1 of
          None \<Rightarrow> bind_result (calculate_qubits_per_logical c1)
                    (\<lambda>q. Inr (c1\<lparr>qubits_per_logical := Some q\<rparr>))
        | Some _ \<Rightarrow> Inr c1) (\<lambda>c2.
     bind_result
       (case logical_gate_time c2 of
          None \<Rightarrow> bind_result (require (code_distance c2))
                    (\<lambda>d. Inr (c2\<lparr>logical_gate_time := Some (of_int d * physical_gate_time c2)\<rparr>))
        | Some _ \<Rightarrow> Inr c2) (\<lambda>c3.
       (case error_correction_cycle_time c3 of
          None \<Rightarrow> bind_result (require (code_distance c3))
                    (\<lambda>d. Inr (c3\<lparr>error_correction_cycle_time :=
                                    Some (of_int d * physical_gate_time c3)\<rparr>))
        | Some _ \<Rightarrow> Inr c3))))"

definition calculate_resources ::
  "real DigitalResourceConfig \<Rightarrow> py_error + real DigitalResourceEstimator" where
  "calculate_resources c =
     bind_result (require (qubits_per_logical c)) (\<lambda>qpl.
     let dq = logical_qubits c * qpl;
         mq = py_int (of_int (t_gate_count c) * magic_state_overhead_factor c * of_int qpl);
         cq = py_int (of_int dq * (compilation_overhead_factor c - 1));
         total = dq + mq + cq
     in bind_result (require (logical_gate_time c)) (\<lambda>lgt.
        bind_result (py_truediv (target_runtime c) lgt) (\<lambda>gates.
        Inr \<lparr>est_config = c, data_qubits = dq, magic_state_qubits = mq,
             compilation_qubits = cq, total_physical_qubits = total,
             logical_gate_count = py_int gates,
             space_time_volume = of_int total * target_runtime c\<rparr>)))"

definition DigitalResourceEstimator_init ::
  "real DigitalResourceConfig \<Rightarrow> py_error + real DigitalResourceEstimator" where
  "DigitalResourceEstimator_init c = calculate_resources c"

definition new_DigitalResourceEstimator ::
  "real DigitalResourceConfig \<Rightarrow> py_error + real DigitalResourceEstimator" where
  \<comment> \<open>\<^verbatim>\<open>DigitalResourceEstimator(DigitalResourceConfig(...))\<close>.\<close>
  "new_DigitalResourceEstimator c =
     bind_result (DigitalResourceConfig_post_init c) DigitalResourceEstimator_init"



subsection \<open>In binary64 arithmetic\<close>

definition DigitalResourceConfig_defaults_f64 ::
  "int \<Rightarrow> float64 \<Rightarrow> float64 \<Rightarrow> float64 DigitalResourceConfig" where
  \<comment> \<open>A decimal literal of the source is the double nearest to it.\<close>
  "DigitalResourceConfig_defaults_f64 lq runtime p =
     \<lparr>logical_qubits = lq, target_runtime = runtime, digital_error_rate = p,
      target_logical_error_rate = fl (1 / 10 ^ 10), code_distance = None,
      qubits_per_logical = None, magic_state_error_threshold = fl (1 / 1000),
      t_gate_count = 100, magic_state_overhead_factor = Fin 2,
      compilation_overhead_factor = Fin (3 / 2), physical_gate_time = fl (1 / 10),
      logical_gate_time = None, error_correction_cycle_time = None\<rparr>"

definition calculate_code_distance_f64 ::
  "float64 DigitalResourceConfig \<Rightarrow> py_error + int" where
  \<comment> \<open>The two quotients are Python divisions; \<^verbatim>\<open>np.log\<close> returns a \<^verbatim>\<open>numpy\<close>
      scalar, so the product by 2 and the division by \<^verbatim>\<open>log_ratio\<close> raise nothing,
      and \<^verbatim>\<open>int\<close> raises on an infinity or a NaN.\<close>
  "calculate_code_distance_f64 c =
     (let p = digital_error_rate c; p_L = target_logical_error_rate c; p_th = fl (1 / 100)
      in if f64_le p_th p then Inl (ValueError BelowThreshold)
         else
           bind_result (py_truediv_f64 p_th p) (\<lambda>q.
           let log_ratio = np_log_f64 q
           in bind_result (py_truediv_f64 (Fin 1) p_L) (\<lambda>inv.
              bind_result
                (py_int_f64 (np_ceil_f64
                   (f64_div (f64_mul (Fin 2) (np_log_f64 inv)) log_ratio))) (\<lambda>d.
              let d = (if d mod 2 = 0 then d + 1 else d)
              in Inr (max d 3)))))"

definition DigitalResourceConfig_post_init_f64 ::
  "float64 DigitalResourceConfig \<Rightarrow> py_error + float64 DigitalResourceConfig" where
  \<comment> \<open>\<^verbatim>\<open>code_distance * physical_gate_time\<close> converts the integer to a float first.\<close>
  "DigitalResourceConfig_post_init_f64 c =
     bind_result
       (case code_distance c of
          None \<Rightarrow> bind_result (calculate_code_distance_f64 c)
                    (\<lambda>d. Inr (c\<lparr>code_distance := Some d\<rparr>))
        | Some _ \<Rightarrow> Inr c) (\<lambda>c1.
     bind_result
       (case qubits_per_logical c1 of
          None \<Rightarrow> bind_result (calculate_qubits_per_logical c1)
                    (\<lambda>q. Inr (c1\<lparr>qubits_per_logical := Some q\<rparr>))
        | Some _ \<Rightarrow> Inr c1) (\<lambda>c2.
     bind_result
       (case logical_gate_time c2 of
          None \<Rightarrow> bind_result (require (code_distance c2)) (\<lambda>d.
                  bind_result (float_of_int d) (\<lambda>x.
                  Inr (c2\<lparr>logical_gate_time := Some (f64_mul x (physical_gate_time c2))\<rparr>)))
        | Some _ \<Rightarrow> Inr c2) (\<lambda>c3.
       (case error_correction_cycle_time c3 of
          None \<Rightarrow> bind_result (require (code_distance c3)) (\<lambda>d.
                  bind_result (float_of_int d) (\<lambda>x.
                  Inr (c3\<lparr>error_correction_cycle_time :=
                            Some (f64_mul x (physical_gate_time c3))\<rparr>)))
        | Some _ \<Rightarrow> Inr c3))))"

definition calculate_resources_f64 ::
  "float64 DigitalResourceConfig \<Rightarrow> py_error + float64 DigitalResourceEstimator" where
  \<comment> \<open>Each product of an \<^verbatim>\<open>int\<close> and a \<^verbatim>\<open>float\<close> converts the integer, then
      multiplies and rounds; \<^verbatim>\<open>int(...)\<close> truncates the rounded product.\<close>
  "calculate_resources_f64 c =
     bind_result (require (qubits_per_logical c)) (\<lambda>qpl.
     let dq = logical_qubits c * qpl
     in bind_result (float_of_int (t_gate_count c)) (\<lambda>t.
        bind_result (float_of_int qpl) (\<lambda>q.
        bind_result (py_int_f64 (f64_mul (f64_mul t (magic_state_overhead_factor c)) q)) (\<lambda>mq.
        bind_result (float_of_int dq) (\<lambda>d.
        bind_result (py_int_f64
                       (f64_mul d (f64_sub (compilation_overhead_factor c) (Fin 1)))) (\<lambda>cq.
        let total = dq + mq + cq
        in bind_result (require (logical_gate_time c)) (\<lambda>lgt.
           bind_result (py_truediv_f64 (target_runtime c) lgt) (\<lambda>gates.
           bind_result (py_int_f64 gates) (\<lambda>lgc.
           bind_result (float_of_int total) (\<lambda>n.
           Inr \<lparr>est_config = c, data_qubits = dq, magic_state_qubits = mq,
                compilation_qubits = cq, total_physical_qubits = total,
                logical_gate_count = lgc,
                space_time_volume = f64_mul n (target_runtime c)\<rparr>))))))))))"

definition DigitalResourceEstimator_init_f64 ::
  "float64 DigitalResourceConfig \<Rightarrow> py_error + float64 DigitalResourceEstimator" where
  "DigitalResourceEstimator_init_f64 c = calculate_resources_f64 c"

definition new_DigitalResourceEstimator_f64 ::
  "float64 DigitalResourceConfig \<Rightarrow> py_error + float64 DigitalResourceEstimator" where
  "new_DigitalResourceEstimator_f64 c =
     bind_result (DigitalResourceConfig_post_init_f64 c) DigitalResourceEstimator_init_f64"


section \<open>report\_generator.py\<close>

text \<open>The report is translated in exact arithmetic.\<close>





section \<open>Concrete configurations\<close>

subsection \<open>In exact arithmetic\<close>


definition above_threshold_explicit :: "real DigitalResourceConfig" where
  \<comment> \<open>An error rate of 0.02 together with a caller-supplied code distance of 5.\<close>
  "above_threshold_explicit =
     (DigitalResourceConfig_defaults 1 (1 / 2) (2 / 100))\<lparr>code_distance := Some 5\<rparr>"




subsection \<open>In binary64 arithmetic\<close>





definition scenario_B_f64 :: "float64 DigitalResourceConfig" where
  \<comment> \<open>\<^verbatim>\<open>DigitalResourceConfig(logical_qubits=1, target_runtime=0.5,
      digital_error_rate=1e-4)\<close>.\<close>
  "scenario_B_f64 = DigitalResourceConfig_defaults_f64 1 (Fin (1 / 2)) (fl (1 / 10000))"

definition smallest_target_f64 :: "float64 DigitalResourceConfig" where
  \<comment> \<open>Scenario B with \<^verbatim>\<open>target_logical_error_rate=5e-324\<close>.\<close>
  "smallest_target_f64 = scenario_B_f64\<lparr>target_logical_error_rate := Fin f64_tiny\<rparr>"

definition half_target_f64 :: "float64 DigitalResourceConfig" where
  \<comment> \<open>Scenario B with \<^verbatim>\<open>target_logical_error_rate=0.5\<close>.\<close>
  "half_target_f64 = scenario_B_f64\<lparr>target_logical_error_rate := Fin (1 / 2)\<rparr>"

definition truncation_config_f64 :: "float64 DigitalResourceConfig" where
  \<comment> \<open>Scenario B with \<^verbatim>\<open>code_distance=3, magic_state_overhead_factor=2.001,
      compilation_overhead_factor=1.1\<close>.\<close>
  "truncation_config_f64 =
     scenario_B_f64
       \<lparr>code_distance := Some 3, magic_state_overhead_factor := fl (2001 / 1000),
        compilation_overhead_factor := fl (11 / 10)\<rparr>"



section \<open>Properties in exact arithmetic\<close>

subsection \<open>Construction of the analog simulator\<close>

lemma reciprocal_sum_zero:
  "0 \<in> set ts \<Longrightarrow> reciprocal_sum acc ts = Inl ZeroDivisionError"
  by (induction ts arbitrary: acc) auto

text \<open>
  Claim C5, as amended. The computation of \<open>system_t1\<close> raises
  \<^verbatim>\<open>ZeroDivisionError\<close> whenever the list of T1 times is empty or holds a zero, and
  it does so while the simulator is constructed (after the length check of the
  configuration, which raises first on a mismatch). Nothing is said about a negative
  T1: none is rejected, as the counterexample below shows.
\<close>

theorem system_t1_zero_division:
  assumes ts: "qubit_t1_times c = Some ts"
    and bad: "ts = [] \<or> 0 \<in> set ts"
  shows "calculate_system_t1 c = Inl ZeroDivisionError
       \<and> AnalogSimulator_init c = Inl ZeroDivisionError
       \<and> new_AnalogSimulator c =
           Inl (if int (length ts) \<noteq> circuit_width c then ValueError T1LengthMismatch
                else ZeroDivisionError)"
proof -
  have rs: "bind_result (reciprocal_sum 0 ts) (py_truediv 1) = Inl ZeroDivisionError"
  proof (cases "0 \<in> set ts")
    case True
    then show ?thesis by (simp add: reciprocal_sum_zero bind_result_def)
  next
    case False
    then have "ts = []" using bad by simp
    then show ?thesis by (simp add: bind_result_def py_truediv_def)
  qed
  have sys: "calculate_system_t1 c = Inl ZeroDivisionError"
    using ts rs by (simp add: calculate_system_t1_def require_def bind_result_def)
  have init: "AnalogSimulator_init c = Inl ZeroDivisionError"
    using sys by (simp add: AnalogSimulator_init_def bind_result_def)
  have "new_AnalogSimulator c =
          Inl (if int (length ts) \<noteq> circuit_width c then ValueError T1LengthMismatch
               else ZeroDivisionError)"
    using ts init
    by (simp add: new_AnalogSimulator_def AnalogSimulatorConfig_post_init_def bind_result_def)
  with sys init show ?thesis by simp
qed

theorem system_t1_zero_division_witness:
  "new_AnalogSimulator
     \<lparr>circuit_width = 2, qubit_t1_times = Some [100, 0], default_t1 = 100,
      measurement_error_rate = 1 / 100, target_fidelity = 99 / 100,
      max_runtime_multiplier = 1\<rparr> = Inl ZeroDivisionError"
  using system_t1_zero_division[of
      "\<lparr>circuit_width = 2, qubit_t1_times = Some [100, 0], default_t1 = 100,
        measurement_error_rate = 1 / 100, target_fidelity = 99 / 100,
        max_runtime_multiplier = 1\<rparr>" "[100, 0]"]
  by simp

text \<open>
  Claim C5 as written also promises an error for every \<open>t1 \<le> 0\<close>. A single qubit
  with a T1 of \<open>-100\<close> is accepted: the simulator is constructed with a \<open>system_t1\<close>
  of \<open>-100\<close>.
\<close>

theorem system_t1_negative_counterexample:
  "(- 100 :: real) \<le> 0 \<and>
   new_AnalogSimulator
     \<lparr>circuit_width = 1, qubit_t1_times = Some [- 100], default_t1 = 100,
      measurement_error_rate = 1 / 100, target_fidelity = 99 / 100,
      max_runtime_multiplier = 1\<rparr>
   = Inr \<lparr>sim_config =
            \<lparr>circuit_width = 1, qubit_t1_times = Some [- 100], default_t1 = 100,
             measurement_error_rate = 1 / 100, target_fidelity = 99 / 100,
             max_runtime_multiplier = 1\<rparr>,
          system_t1 = - 100, feasible_runtime = - 100\<rparr>"
  by (simp add: new_AnalogSimulator_def AnalogSimulatorConfig_post_init_def
      AnalogSimulator_init_def calculate_system_t1_def bind_result_def require_def
      py_truediv_def calculate_feasible_runtime_def)

subsection \<open>Fields that no output reads\<close>

lemma post_init_ignores:
  "AnalogSimulatorConfig_post_init (c\<lparr>measurement_error_rate := m, target_fidelity := f\<rparr>)
   = map_sum id (\<lambda>c'. c'\<lparr>measurement_error_rate := m, target_fidelity := f\<rparr>)
       (AnalogSimulatorConfig_post_init c)"
  by (simp add: AnalogSimulatorConfig_post_init_def split: option.splits)

lemma init_ignores:
  "AnalogSimulator_init (c\<lparr>measurement_error_rate := m, target_fidelity := f\<rparr>)
   = map_sum id (\<lambda>s. s\<lparr>sim_config := (sim_config s)\<lparr>measurement_error_rate := m, target_fidelity := f\<rparr>\<rparr>)
       (AnalogSimulator_init c)"
  by (simp add: AnalogSimulator_init_def calculate_system_t1_def bind_result_def
      calculate_feasible_runtime_def split: sum.splits)

lemma new_ignores:
  "new_AnalogSimulator (c\<lparr>measurement_error_rate := m, target_fidelity := f\<rparr>)
   = map_sum id (\<lambda>s. s\<lparr>sim_config := (sim_config s)\<lparr>measurement_error_rate := m, target_fidelity := f\<rparr>\<rparr>)
       (new_AnalogSimulator c)"
  by (simp add: new_AnalogSimulator_def post_init_ignores init_ignores bind_result_def
      split: sum.splits)

lemma get_decoherence_error_sim_config:
  "get_decoherence_error (s\<lparr>sim_config := c'\<rparr>) r = get_decoherence_error s r"
  by (cases r) (simp_all add: get_decoherence_error_def)

text \<open>
  Claim C10. Changing \<open>measurement_error_rate\<close> and \<open>target_fidelity\<close> of a
  configuration changes no output: construction fails with the same error or succeeds
  with the same \<open>system_t1\<close> and feasible runtime, and the decoherence error, the total
  error and the fidelity agree at every runtime. The total error is the decoherence
  error.
\<close>

theorem measurement_error_ignored:
  "map_sum id system_t1 (new_AnalogSimulator (c\<lparr>measurement_error_rate := m, target_fidelity := f\<rparr>))
     = map_sum id system_t1 (new_AnalogSimulator c)
   \<and> map_sum id feasible_runtime
       (new_AnalogSimulator (c\<lparr>measurement_error_rate := m, target_fidelity := f\<rparr>))
     = map_sum id feasible_runtime (new_AnalogSimulator c)
   \<and> (\<forall>r. bind_result (new_AnalogSimulator (c\<lparr>measurement_error_rate := m, target_fidelity := f\<rparr>))
             (\<lambda>s. get_decoherence_error s r)
          = bind_result (new_AnalogSimulator c) (\<lambda>s. get_decoherence_error s r))
   \<and> (\<forall>r. bind_result (new_AnalogSimulator (c\<lparr>measurement_error_rate := m, target_fidelity := f\<rparr>))
             (\<lambda>s. get_total_error s r)
          = bind_result (new_AnalogSimulator c) (\<lambda>s. get_total_error s r))
   \<and> (\<forall>r. bind_result (new_AnalogSimulator (c\<lparr>measurement_error_rate := m, target_fidelity := f\<rparr>))
             (\<lambda>s. get_fidelity s r)
          = bind_result (new_AnalogSimulator c) (\<lambda>s. get_fidelity s r))
   \<and> (\<forall>s r. get_total_error s r = get_decoherence_error s r)"
proof (cases "new_AnalogSimulator c")
  case (Inl e)
  then show ?thesis
    by (simp add: new_ignores bind_result_def get_total_error_def)
next
  case (Inr s)
  then show ?thesis
    by (simp add: new_ignores bind_result_def get_fidelity_def get_total_error_def
        get_decoherence_error_sim_config)
qed


subsection \<open>Construction of the digital configuration\<close>



text \<open>
  With \<open>code_distance\<close> unset, the derivation of the distance tests the error rate
  against the threshold first and raises; the construction ends with that error.
\<close>

lemma threshold_checked_when_derived:
  assumes "code_distance c = None" and "digital_error_rate c \<ge> 1 / 100"
  shows "calculate_code_distance c = Inl (ValueError BelowThreshold)
       \<and> DigitalResourceConfig_post_init c = Inl (ValueError BelowThreshold)
       \<and> new_DigitalResourceEstimator c = Inl (ValueError BelowThreshold)"
proof -
  have d: "calculate_code_distance c = Inl (ValueError BelowThreshold)"
    using assms(2) by (simp add: calculate_code_distance_def)
  have p: "DigitalResourceConfig_post_init c = Inl (ValueError BelowThreshold)"
    using assms(1) d by (simp add: DigitalResourceConfig_post_init_def bind_result_def)
  show ?thesis
    using d p by (simp add: new_DigitalResourceEstimator_def bind_result_def)
qed

text \<open>
  Claim C1. A configuration whose error rate is at least 0.01 is to be refused with a
  configuration error before any derived field is computed, whether or not it
  supplies \<open>code_distance\<close>. The constructor makes the threshold test inside the
  derivation of the distance only, so a configuration that supplies the distance is
  never tested: with an error rate of 0.02 and a supplied distance of 5 the
  construction returns a configuration with \<open>qubits_per_logical = 50\<close> and both gate
  times 0.5, and the estimator built from it counts 10075 physical qubits. The code
  breaks the claim at this input.
\<close>

theorem threshold_unchecked_when_supplied:
  "digital_error_rate above_threshold_explicit \<ge> 1 / 100
   \<and> DigitalResourceConfig_post_init above_threshold_explicit
       = Inr (above_threshold_explicit
               \<lparr>qubits_per_logical := Some 50, logical_gate_time := Some (1 / 2),
                error_correction_cycle_time := Some (1 / 2)\<rparr>)
   \<and> map_sum id total_physical_qubits (new_DigitalResourceEstimator above_threshold_explicit)
       = Inr 10075"
  by (simp add: above_threshold_explicit_def DigitalResourceConfig_defaults_def
      new_DigitalResourceEstimator_def DigitalResourceEstimator_init_def
      DigitalResourceConfig_post_init_def calculate_qubits_per_logical_def
      calculate_resources_def bind_result_def require_def py_truediv_def py_int_def Let_def)

subsection \<open>The resolved configuration\<close>






subsection \<open>Wall-clock time\<close>



section \<open>The comparison\<close>




section \<open>Properties of binary64 rounding\<close>

lemma round_half_even_of_int [simp]: "round_half_even (of_int k) = k"
  by (simp add: round_half_even_def)

lemma round_half_even_cases:
  "round_half_even y = \<lfloor>y\<rfloor> \<or> round_half_even y = \<lfloor>y\<rfloor> + 1"
  unfolding round_half_even_def Let_def by simp


lemma round_half_even_mono:
  assumes "a \<le> b" shows "round_half_even a \<le> round_half_even b"
proof (cases "\<lfloor>a\<rfloor> = \<lfloor>b\<rfloor>")
  case True
  then show ?thesis using assms
    unfolding round_half_even_def Let_def by (simp split: if_splits)
next
  case False
  then have "\<lfloor>a\<rfloor> < \<lfloor>b\<rfloor>" using assms floor_mono[of a b] by linarith
  then have "\<lfloor>a\<rfloor> + 1 \<le> \<lfloor>b\<rfloor>" by simp
  moreover have "round_half_even a \<le> \<lfloor>a\<rfloor> + 1"
    using round_half_even_cases[of a] by linarith
  moreover have "\<lfloor>b\<rfloor> \<le> round_half_even b"
    using round_half_even_cases[of b] by linarith
  ultimately show ?thesis by linarith
qed

lemma round_half_even_minus: "round_half_even (- y) = - round_half_even y"
proof (cases "y = of_int \<lfloor>y\<rfloor>")
  case True
  then have "- y = of_int (- \<lfloor>y\<rfloor>)" by simp
  then have "round_half_even (- y) = - \<lfloor>y\<rfloor>"
    by (simp only: round_half_even_of_int)
  moreover have "round_half_even y = \<lfloor>y\<rfloor>"
    using True round_half_even_of_int[of "\<lfloor>y\<rfloor>"] by simp
  ultimately show ?thesis by simp
next
  case False
  have "\<lfloor>- y\<rfloor> = - \<lceil>y\<rceil>" by (simp add: ceiling_def)
  also have "\<lceil>y\<rceil> = \<lfloor>y\<rfloor> + 1"
  proof (rule ceiling_unique)
    have "of_int \<lfloor>y\<rfloor> < y"
      by (rule le_neq_trans[OF of_int_floor_le not_sym[OF False]])
    then show "of_int (\<lfloor>y\<rfloor> + 1) - 1 < y" by simp
    show "y \<le> of_int (\<lfloor>y\<rfloor> + 1)" by linarith
  qed
  finally have fl: "\<lfloor>- y\<rfloor> = - \<lfloor>y\<rfloor> - 1" by simp
  have lo: "of_int \<lfloor>y\<rfloor> < y"
    by (rule le_neq_trans[OF of_int_floor_le not_sym[OF False]])
  have ev: "even (- \<lfloor>y\<rfloor> - 1) \<longleftrightarrow> odd \<lfloor>y\<rfloor>" by simp
  show ?thesis
    unfolding round_half_even_def Let_def fl ev using lo
    by (simp split: if_splits)
qed

lemma round_half_even_nonneg: "0 \<le> y \<Longrightarrow> 0 \<le> round_half_even y"
  using round_half_even_mono[of 0 y] round_half_even_of_int[of 0] by simp

lemma two_powr_of_int: "2 powr (of_int k) = (2::real) powi k"
  by (simp add: powr_real_of_int power_int_def power_one_over inverse_eq_divide)

lemma binade_bounds:
  assumes "x \<noteq> 0"
  shows "2 powi binade x \<le> \<bar>x\<bar>" and "\<bar>x\<bar> < 2 powi (binade x + 1)"
proof -
  have pos: "0 < \<bar>x\<bar>" using assms by simp
  have "2 powr (of_int (binade x)) \<le> \<bar>x\<bar> \<and> \<bar>x\<bar> < 2 powr (of_int (binade x + 1))"
    using floor_log_eq_powr_iff[of "\<bar>x\<bar>" 2 "binade x"] pos
    by (simp add: binade_def)
  then show "2 powi binade x \<le> \<bar>x\<bar>" and "\<bar>x\<bar> < 2 powi (binade x + 1)"
    by (simp_all only: two_powr_of_int)
qed

lemma binade_eqI:
  assumes "2 powi e \<le> \<bar>x\<bar>" and "\<bar>x\<bar> < 2 powi (e + 1)"
  shows "binade x = e"
proof -
  have "(0::real) < 2 powi e" by simp
  then have pos: "0 < \<bar>x\<bar>" using assms(1) by linarith
  have "2 powr (of_int e) \<le> \<bar>x\<bar> \<and> \<bar>x\<bar> < 2 powr (of_int (e + 1))"
    using assms by (simp only: two_powr_of_int)
  then show ?thesis
    using floor_log_eq_powr_iff[of "\<bar>x\<bar>" 2 e] pos by (simp add: binade_def)
qed

lemma two_powi_of_int: "0 \<le> n \<Longrightarrow> (2::real) powi n = of_int (2 ^ nat n)"
  by (simp add: power_int_def)

lemma quantum_pos [simp]: "0 < quantum x"
  by (simp add: quantum_def)

lemma quantum_nonneg [simp]: "0 \<le> quantum x"
  by (simp add: quantum_def)

lemma quantum_nonzero [simp]: "quantum x \<noteq> 0"
  by (simp add: quantum_def)

lemma round_half_even_0 [simp]: "round_half_even 0 = 0"
  using round_half_even_of_int[of 0] by simp

lemma rne_0 [simp]: "rne 0 = 0"
  by (simp add: rne_def)

lemma binade_minus [simp]: "binade (- x) = binade x"
  by (simp add: binade_def)

lemma quantum_minus [simp]: "quantum (- x) = quantum x"
  by (simp add: quantum_def)

lemma rne_minus: "rne (- x) = - rne x"
  by (simp add: rne_def round_half_even_minus)

lemma rne_nonneg: "0 \<le> x \<Longrightarrow> 0 \<le> rne x"
proof -
  assume "0 \<le> x"
  then have "0 \<le> x / quantum x" by (intro divide_nonneg_pos quantum_pos)
  then have "0 \<le> round_half_even (x / quantum x)" by (rule round_half_even_nonneg)
  then show ?thesis unfolding rne_def by (intro mult_nonneg_nonneg) simp_all
qed

lemma rne_nonpos: "x \<le> 0 \<Longrightarrow> rne x \<le> 0"
  using rne_nonneg[of "- x"] by (simp add: rne_minus)

lemma rne_abs: "\<bar>rne x\<bar> = rne \<bar>x\<bar>"
proof (cases "0 \<le> x")
  case True
  then show ?thesis using rne_nonneg[of x] by simp
next
  case False
  then have "rne x \<le> 0" by (intro rne_nonpos) simp
  then show ?thesis using False by (simp add: abs_if rne_minus)
qed

lemma binade_le:
  assumes "x \<noteq> 0" and "\<bar>x\<bar> \<le> 2 powi k"
  shows "binade x \<le> k"
proof (rule ccontr)
  assume "\<not> binade x \<le> k"
  then have "k < binade x" by simp
  then have "(2::real) powi k < 2 powi binade x"
    by (intro power_int_strict_increasing) auto
  with binade_bounds(1)[OF assms(1)] assms(2) show False by linarith
qed

lemma binade_ge:
  assumes "2 powi k \<le> \<bar>x\<bar>"
  shows "k \<le> binade x"
proof (rule ccontr)
  assume "\<not> k \<le> binade x"
  then have "binade x + 1 \<le> k" by simp
  then have le: "(2::real) powi (binade x + 1) \<le> 2 powi k"
    by (intro power_int_increasing) auto
  have "(0::real) < 2 powi k" by simp
  then have "0 < \<bar>x\<bar>" using assms by linarith
  then have "x \<noteq> 0" by simp
  with binade_bounds(2)[of x] le assms show False by linarith
qed

lemma rne_upper_nonneg:
  assumes k: "- 1022 \<le> k" and x: "0 \<le> x" "x \<le> 2 powi k"
  shows "rne x \<le> 2 powi k"
proof (cases "x = 0")
  case True
  then show ?thesis by simp
next
  case False
  define E where "E = max (binade x) (- 1022)"
  have q: "quantum x = 2 powi (E - 52)" by (simp add: quantum_def E_def)
  have "binade x \<le> k" using binade_le[OF False] x by simp
  then have Ek: "E \<le> k" using k by (simp add: E_def)
  have "x / 2 powi (E - 52) \<le> 2 powi k / 2 powi (E - 52)"
    using x by (intro divide_right_mono) auto
  also have "2 powi k / 2 powi (E - 52) = (2::real) powi (k - (E - 52))"
    by (simp add: power_int_diff)
  also have "\<dots> = of_int (2 ^ nat (k - (E - 52)))"
    using Ek by (intro two_powi_of_int) simp
  finally have "round_half_even (x / 2 powi (E - 52)) \<le> 2 ^ nat (k - (E - 52))"
    using round_half_even_mono round_half_even_of_int by metis
  then have "real_of_int (round_half_even (x / 2 powi (E - 52))) \<le> of_int (2 ^ nat (k - (E - 52)))"
    by (simp only: of_int_le_iff)
  also have "\<dots> = (2::real) powi (k - (E - 52))"
    using Ek by (intro two_powi_of_int[symmetric]) simp
  finally have "rne x \<le> 2 powi (k - (E - 52)) * 2 powi (E - 52)"
    unfolding rne_def q by (intro mult_right_mono) auto
  also have "\<dots> = (2::real) powi k"
    by (simp flip: power_int_add)
  finally show ?thesis .
qed

lemma rne_upper:
  assumes "- 1022 \<le> k" and "\<bar>x\<bar> \<le> 2 powi k"
  shows "\<bar>rne x\<bar> \<le> 2 powi k"
  using rne_upper_nonneg[OF assms(1), of "\<bar>x\<bar>"] assms(2) by (simp add: rne_abs)

lemma rne_lower:
  assumes k: "- 1022 \<le> k" and x: "2 powi k \<le> x"
  shows "2 powi k \<le> rne x"
proof -
  have pos: "(0::real) < 2 powi k" by simp
  then have xpos: "0 < x" using x by linarith
  have kE: "k \<le> binade x" using binade_ge[of k x] x xpos by simp
  then have E: "max (binade x) (- 1022) = binade x" using k by simp
  have q: "quantum x = 2 powi (binade x - 52)" by (simp add: quantum_def E)
  have "2 powi binade x \<le> x" using binade_bounds(1)[of x] xpos by simp
  then have "2 powi binade x / 2 powi (binade x - 52) \<le> x / 2 powi (binade x - 52)"
    by (intro divide_right_mono) auto
  moreover have "2 powi binade x / 2 powi (binade x - 52) = (of_int (2 ^ 52) :: real)"
    by (simp add: power_int_diff)
  ultimately have "of_int (2 ^ 52) \<le> x / 2 powi (binade x - 52)" by simp
  then have "2 ^ 52 \<le> round_half_even (x / 2 powi (binade x - 52))"
    using round_half_even_mono round_half_even_of_int by metis
  then have "(of_int (2 ^ 52) :: real) \<le> of_int (round_half_even (x / 2 powi (binade x - 52)))"
    by (simp only: of_int_le_iff)
  then have "of_int (2 ^ 52) * 2 powi (binade x - 52) \<le> rne x"
    unfolding rne_def q by (intro mult_right_mono) auto
  moreover have "of_int (2 ^ 52) * 2 powi (binade x - 52) = (2::real) powi binade x"
    by (simp add: power_int_diff)
  moreover have "(2::real) powi k \<le> 2 powi binade x"
    using kE by (intro power_int_increasing) auto
  ultimately show ?thesis by linarith
qed


lemma quantum_normal:
  assumes "2 powi e \<le> \<bar>x\<bar>" and "\<bar>x\<bar> < 2 powi (e + 1)" and "- 1022 \<le> e"
  shows "quantum x = 2 powi (e - 52)"
  using binade_eqI[OF assms(1,2)] assms(3) by (simp add: quantum_def)

lemma quantum_subnormal:
  assumes "x \<noteq> 0" and "\<bar>x\<bar> < 2 powi (- 1022)"
  shows "quantum x = 2 powi (- 1074)"
proof -
  have "binade x < - 1022"
  proof (rule ccontr)
    assume "\<not> binade x < - 1022"
    then have "(2::real) powi (- 1022) \<le> 2 powi binade x"
      by (intro power_int_increasing) auto
    with binade_bounds(1)[OF assms(1)] assms(2) show False by linarith
  qed
  then show ?thesis by (simp add: quantum_def)
qed

lemma rne_normal:
  assumes "2 powi e \<le> \<bar>x\<bar>" and "\<bar>x\<bar> < 2 powi (e + 1)" and "- 1022 \<le> e"
  shows "rne x = of_int (round_half_even (x / 2 powi (e - 52))) * 2 powi (e - 52)"
  unfolding rne_def quantum_normal[OF assms] ..

lemma rne_subnormal:
  assumes "\<bar>x\<bar> < 2 powi (- 1022)"
  shows "rne x = of_int (round_half_even (x / 2 powi (- 1074))) * 2 powi (- 1074)"
proof (cases "x = 0")
  case True
  then show ?thesis by simp
next
  case False
  show ?thesis unfolding rne_def quantum_subnormal[OF False assms] ..
qed

lemma binade_mono:
  assumes "0 < x" and "x \<le> y"
  shows "binade x \<le> binade y"
proof -
  have "2 powi binade x \<le> \<bar>x\<bar>" using binade_bounds(1)[of x] assms(1) by simp
  then have "2 powi binade x \<le> \<bar>y\<bar>" using assms by linarith
  then show ?thesis by (rule binade_ge)
qed

lemma rne_mono_pos:
  assumes "0 < x" and "x \<le> y"
  shows "rne x \<le> rne y"
proof -
  define Ex where "Ex = max (binade x) (- 1022)"
  define Ey where "Ey = max (binade y) (- 1022)"
  have ypos: "0 < y" using assms by linarith
  have le: "Ex \<le> Ey" using binade_mono[OF assms] by (simp add: Ex_def Ey_def)
  show ?thesis
  proof (cases "Ex = Ey")
    case True
    then have q: "quantum x = quantum y" by (simp add: quantum_def Ex_def Ey_def)
    have "x / quantum y \<le> y / quantum y"
      using assms(2) by (intro divide_right_mono) simp_all
    then have "round_half_even (x / quantum y) \<le> round_half_even (y / quantum y)"
      by (rule round_half_even_mono)
    then have "real_of_int (round_half_even (x / quantum y))
                 \<le> of_int (round_half_even (y / quantum y))"
      by (simp only: of_int_le_iff)
    then show ?thesis
      unfolding rne_def q by (intro mult_right_mono) simp_all
  next
    case False
    then have lt: "Ex < Ey" using le by simp
    have Ex_ge: "- 1022 \<le> Ex" by (simp add: Ex_def)
    then have "- 1022 < Ey" using lt by simp
    then have Ey: "Ey = binade y" by (simp add: Ey_def max_def split: if_splits)
    have "x < 2 powi (binade x + 1)" using binade_bounds(2)[of x] assms(1) by simp
    also have "\<dots> \<le> (2::real) powi (Ex + 1)"
      by (intro power_int_increasing) (simp_all add: Ex_def)
    finally have "x \<le> 2 powi (Ex + 1)" by simp
    then have up: "rne x \<le> 2 powi (Ex + 1)"
      using assms(1) Ex_ge by (intro rne_upper_nonneg) simp_all
    have "2 powi Ey \<le> y" using binade_bounds(1)[of y] ypos Ey by simp
    then have lo: "2 powi Ey \<le> rne y"
      using \<open>- 1022 < Ey\<close> by (intro rne_lower) simp_all
    have "(2::real) powi (Ex + 1) \<le> 2 powi Ey"
      using lt by (intro power_int_increasing) simp_all
    with up lo show ?thesis by linarith
  qed
qed

lemma rne_mono:
  assumes "x \<le> y"
  shows "rne x \<le> rne y"
proof -
  consider "0 < x" | "y < 0" | "x \<le> 0" "0 \<le> y" by linarith
  then show ?thesis
  proof cases
    case 1
    then show ?thesis using assms by (rule rne_mono_pos)
  next
    case 2
    then have "rne (- y) \<le> rne (- x)" using assms by (intro rne_mono_pos) simp_all
    then show ?thesis by (simp add: rne_minus)
  next
    case 3
    then show ?thesis using rne_nonpos[of x] rne_nonneg[of y] by linarith
  qed
qed

lemma rne_1 [simp]: "rne 1 = 1"
proof -
  have "rne 1 = of_int (round_half_even (1 / 2 powi (0 - 52))) * 2 powi (0 - 52)"
    by (rule rne_normal) simp_all
  also have "(1::real) / 2 powi (0 - 52) = of_int (2 ^ 52)" by simp
  finally show ?thesis by (simp only: round_half_even_of_int) simp
qed



lemma f64_huge_gt: "k < 1024 \<Longrightarrow> 2 powi k < f64_huge"
  unfolding f64_huge_def by (intro power_int_strict_increasing) simp_all

lemma fl_finite:
  assumes "\<bar>x\<bar> \<le> 2 powi k" and "- 1022 \<le> k" and "k < 1024"
  shows "fl x = Fin (rne x)"
proof -
  have "\<bar>rne x\<bar> \<le> 2 powi k" using assms(1,2) by (intro rne_upper)
  then have "\<bar>rne x\<bar> < f64_huge" using f64_huge_gt[OF assms(3)] by linarith
  then show ?thesis by (auto simp: fl_def Let_def)
qed

lemma fl_normalI:
  assumes "2 powi e \<le> \<bar>x\<bar>" and "\<bar>x\<bar> < 2 powi (e + 1)" and "- 1022 \<le> e" and "e < 1023"
    and "round_half_even (x / 2 powi (e - 52)) = m"
    and "y = of_int m * 2 powi (e - 52)"
  shows "fl x = Fin y"
proof -
  have "rne x = y" using rne_normal[OF assms(1-3)] assms(5,6) by simp
  moreover have "fl x = Fin (rne x)"
    using assms(2,3,4) by (intro fl_finite[where k = "e + 1"]) simp_all
  ultimately show ?thesis by simp
qed

lemma one_less_f64_huge: "1 < f64_huge"
proof -
  have "(2::real) powi 0 < f64_huge" by (rule f64_huge_gt) simp
  then show ?thesis by simp
qed

lemma f64_huge_pos: "0 < f64_huge"
  using one_less_f64_huge by linarith

lemma fl_0 [simp]: "fl 0 = Fin 0"
  using f64_huge_pos by (simp add: fl_def)

lemma fl_1 [simp]: "fl 1 = Fin 1"
  using one_less_f64_huge by (simp add: fl_def)


section \<open>Properties in binary64 arithmetic\<close>

subsection \<open>System T1\<close>





lemma fl_one_hundredth: "fl (1 / 100) = Fin (5764607523034235 / 576460752303423488)"
  by (rule fl_normalI[where e = "- 7" and m = 5764607523034235])
     (simp_all add: round_half_even_def)














subsection \<open>Fidelity and decoherence error\<close>

lemma f64_tiny_pos: "0 < f64_tiny"
  by (simp add: f64_tiny_def)

lemma f64_tiny_recip: "f64_huge \<le> 1 / f64_tiny"
proof -
  have "1 / f64_tiny = (2::real) powi 1074"
    unfolding f64_tiny_def by (simp only: power_int_minus_divide[symmetric] minus_minus)
  moreover have "(2::real) powi 1024 \<le> 2 powi 1074"
    by (intro power_int_increasing) simp_all
  ultimately show ?thesis by (simp only: f64_huge_def)
qed

lemma fl_overflow:
  assumes "f64_huge \<le> x"
  shows "fl x = PInf"
proof -
  have "2 powi 1024 \<le> rne x"
    using assms unfolding f64_huge_def by (intro rne_lower) simp_all
  then show ?thesis by (simp add: fl_def f64_huge_def Let_def)
qed








subsection \<open>Results and conversions\<close>

lemma bind_result_Inr_iff:
  "bind_result r f = Inr v \<longleftrightarrow> (\<exists>x. r = Inr x \<and> f x = Inr v)"
  by (cases r) (simp_all add: bind_result_def)

lemma bind_result_simps [simp]:
  "bind_result (Inr x) f = f x" "bind_result (Inl e) f = Inl e"
  by (simp_all add: bind_result_def)

lemma require_Inr_iff: "require x = Inr v \<longleftrightarrow> x = Some v"
  by (cases x) (auto simp: require_def)

lemma py_int_f64_Inr_iff: "py_int_f64 a = Inr k \<longleftrightarrow> (\<exists>r. a = Fin r \<and> k = py_int r)"
  by (cases a) auto

lemma py_truediv_f64_Inr_iff:
  "py_truediv_f64 a b = Inr v \<longleftrightarrow> b \<noteq> Fin 0 \<and> v = f64_div a b"
  by (auto simp: py_truediv_f64_def)

lemma rne_of_int:
  assumes "\<bar>n\<bar> \<le> 2 ^ 53"
  shows "rne (of_int n) = of_int n"
proof (cases "n = 0")
  case True
  then show ?thesis by simp
next
  case False
  define e where "e = binade (of_int n)"
  have n1: "(1::real) \<le> \<bar>of_int n\<bar>" using False by (simp flip: of_int_abs)
  have "(2::real) powi 0 \<le> \<bar>of_int n\<bar>" using n1 by simp
  then have e0: "0 \<le> e" unfolding e_def by (rule binade_ge)
  have "\<bar>real_of_int n\<bar> \<le> 2 powi 53"
    using assms by (simp flip: of_int_abs)
  then have e53: "e \<le> 53" unfolding e_def using False by (intro binade_le) simp_all
  have q: "quantum (of_int n) = 2 powi (e - 52)"
    using e0 by (simp add: quantum_def e_def)
  show ?thesis
  proof (cases "e = 53")
    case True
    have "2 powi 53 \<le> \<bar>real_of_int n\<bar>"
      using binade_bounds(1)[of "real_of_int n"] False True by (simp add: e_def)
    then have "2 ^ 53 \<le> \<bar>n\<bar>" by (simp flip: of_int_abs)
    with assms have "\<bar>n\<bar> = 2 ^ 53" by simp
    then consider "n = 2 ^ 53" | "n = - (2 ^ 53)" by (auto simp: abs_if split: if_splits)
    then show ?thesis
    proof cases
      case 1
      have "rne (2 ^ 53) = of_int (round_half_even (2 ^ 53 / 2 powi (53 - 52))) * 2 powi (53 - 52)"
        by (rule rne_normal) simp_all
      also have "(2 ^ 53 :: real) / 2 powi (53 - 52) = of_int (2 ^ 52)" by simp
      finally have "rne (2 ^ 53) = 2 ^ 53"
        by (simp only: round_half_even_of_int) simp
      then show ?thesis using 1 by simp
    next
      case 2
      have "rne (2 ^ 53) = of_int (round_half_even (2 ^ 53 / 2 powi (53 - 52))) * 2 powi (53 - 52)"
        by (rule rne_normal) simp_all
      also have "(2 ^ 53 :: real) / 2 powi (53 - 52) = of_int (2 ^ 52)" by simp
      finally have "rne (2 ^ 53) = 2 ^ 53"
        by (simp only: round_half_even_of_int) simp
      then have "rne (- (2 ^ 53)) = - (2 ^ 53)" by (simp only: rne_minus)
      then show ?thesis using 2 by simp
    qed
  next
    case False
    then have e52: "e \<le> 52" using e53 by simp
    have "real_of_int n / 2 powi (e - 52) = real_of_int n * 2 powi (52 - e)"
      by (simp add: power_int_diff field_simps)
    also have "(2::real) powi (52 - e) = of_int (2 ^ nat (52 - e))"
      using e52 by (intro two_powi_of_int) simp
    finally have "real_of_int n / 2 powi (e - 52) = of_int (n * 2 ^ nat (52 - e))"
      by simp
    then have "rne (of_int n) = of_int (n * 2 ^ nat (52 - e)) * 2 powi (e - 52)"
      unfolding rne_def q by (simp only: round_half_even_of_int)
    also have "\<dots> = real_of_int n * (of_int (2 ^ nat (52 - e)) * 2 powi (e - 52))"
      by simp
    also have "of_int (2 ^ nat (52 - e)) = (2::real) powi (52 - e)"
      using e52 by (intro two_powi_of_int[symmetric]) simp
    also have "(2::real) powi (52 - e) * 2 powi (e - 52) = 1"
      by (simp flip: power_int_add)
    finally show ?thesis by simp
  qed
qed

lemma float_of_int_exact:
  assumes "\<bar>n\<bar> \<le> 2 ^ 53"
  shows "float_of_int n = Inr (Fin (of_int n))"
proof -
  have "\<bar>real_of_int n\<bar> \<le> 2 powi 53" using assms by (simp flip: of_int_abs)
  also have "\<dots> < f64_huge" by (rule f64_huge_gt) simp
  finally show ?thesis
    using rne_of_int[OF assms] by (simp add: float_of_int_def Let_def)
qed

lemma float_of_int_numeral [simp]:
  "float_of_int 0 = Inr (Fin 0)" "float_of_int 3 = Inr (Fin 3)"
  "float_of_int 18 = Inr (Fin 18)" "float_of_int 100 = Inr (Fin 100)"
  "float_of_int 3620 = Inr (Fin 3620)"
  using float_of_int_exact[of 0] float_of_int_exact[of 3] float_of_int_exact[of 18]
    float_of_int_exact[of 100] float_of_int_exact[of 3620]
  by simp_all

text \<open>The roundings that the configurations below go through.\<close>

lemma fl_1e_4: "fl (1 / 10000) = Fin (7378697629483821 / 73786976294838206464)"
  by (rule fl_normalI[where e = "- 14" and m = 7378697629483821])
     (simp_all add: round_half_even_def)

lemma fl_1e_10: "fl (1 / 10000000000) = Fin (7737125245533627 / 77371252455336267181195264)"
  by (rule fl_normalI[where e = "- 34" and m = 7737125245533627])
     (simp_all add: round_half_even_def)

lemma fl_1e_3: "fl (1 / 1000) = Fin (1152921504606847 / 1152921504606846976)"
  by (rule fl_normalI[where e = "- 10" and m = 4611686018427388])
     (simp_all add: round_half_even_def)

lemma fl_tenth: "fl (1 / 10) = Fin (3602879701896397 / 36028797018963968)"
  by (rule fl_normalI[where e = "- 4" and m = 7205759403792794])
     (simp_all add: round_half_even_def)

lemma fl_2_001: "fl (2001 / 1000) = Fin (4505851427184181 / 2251799813685248)"
  by (rule fl_normalI[where e = 1 and m = 4505851427184181])
     (simp_all add: round_half_even_def)

lemma fl_1_1: "fl (11 / 10) = Fin (2476979795053773 / 2251799813685248)"
  by (rule fl_normalI[where e = 0 and m = 4953959590107546])
     (simp_all add: round_half_even_def)

lemma fl_lgt_3: "fl (10808639105689191 / 36028797018963968) = Fin (1351079888211149 / 4503599627370496)"
  by (rule fl_normalI[where e = "- 2" and m = 5404319552844596])
     (simp_all add: round_half_even_def)

lemma fl_m1: "fl (112646285679604525 / 562949953421312) = Fin (7040392854975283 / 35184372088832)"
  by (rule fl_normalI[where e = 7 and m = 7040392854975283])
     (simp_all add: round_half_even_def)

lemma fl_m2: "fl (63363535694777547 / 17592186044416) = Fin (7920441961847193 / 2199023255552)"
  by (rule fl_normalI[where e = 11 and m = 7920441961847193])
     (simp_all add: round_half_even_def)

lemma fl_cof_minus_1: "fl (225179981368525 / 2251799813685248) = Fin (225179981368525 / 2251799813685248)"
  by (rule fl_normalI[where e = "- 4" and m = 7205759403792800])
     (simp_all add: round_half_even_def)

lemma fl_cq: "fl (2026619832316725 / 1125899906842624) = Fin (2026619832316725 / 1125899906842624)"
  by (rule fl_normalI[where e = 0 and m = 8106479329266900])
     (simp_all add: round_half_even_def)

lemma fl_gates: "fl (2251799813685248 / 1351079888211149) = Fin (3752999689475413 / 2251799813685248)"
  by (rule fl_normalI[where e = 0 and m = 7505999378950826])
     (simp_all add: round_half_even_def)

lemma fl_1810: "fl (1810) = Fin (1810)"
  by (rule fl_normalI[where e = 10 and m = 7960464185098240])
     (simp_all add: round_half_even_def)



subsection \<open>Construction of the digital estimator\<close>


lemma post_init_f64_preserves:
  assumes "DigitalResourceConfig_post_init_f64 c = Inr c'"
  shows "logical_qubits c' = logical_qubits c \<and> t_gate_count c' = t_gate_count c
    \<and> magic_state_overhead_factor c' = magic_state_overhead_factor c
    \<and> compilation_overhead_factor c' = compilation_overhead_factor c
    \<and> target_runtime c' = target_runtime c
    \<and> physical_gate_time c' = physical_gate_time c"
proof -
  from assms obtain c1 c2 c3 where
    s1: "(case code_distance c of
          None \<Rightarrow> bind_result (calculate_code_distance_f64 c)
                    (\<lambda>d. Inr (c\<lparr>code_distance := Some d\<rparr>))
        | Some _ \<Rightarrow> Inr c) = Inr c1"
    and s2: "(case qubits_per_logical c1 of
          None \<Rightarrow> bind_result (calculate_qubits_per_logical c1)
                    (\<lambda>q. Inr (c1\<lparr>qubits_per_logical := Some q\<rparr>))
        | Some _ \<Rightarrow> Inr c1) = Inr c2"
    and s3: "(case logical_gate_time c2 of
          None \<Rightarrow> bind_result (require (code_distance c2)) (\<lambda>d.
                  bind_result (float_of_int d) (\<lambda>x.
                  Inr (c2\<lparr>logical_gate_time := Some (f64_mul x (physical_gate_time c2))\<rparr>)))
        | Some _ \<Rightarrow> Inr c2) = Inr c3"
    and s4: "(case error_correction_cycle_time c3 of
          None \<Rightarrow> bind_result (require (code_distance c3)) (\<lambda>d.
                  bind_result (float_of_int d) (\<lambda>x.
                  Inr (c3\<lparr>error_correction_cycle_time :=
                            Some (f64_mul x (physical_gate_time c3))\<rparr>)))
        | Some _ \<Rightarrow> Inr c3) = Inr c'"
    unfolding DigitalResourceConfig_post_init_f64_def bind_result_Inr_iff by blast
  have p1: "logical_qubits c1 = logical_qubits c \<and> t_gate_count c1 = t_gate_count c
    \<and> magic_state_overhead_factor c1 = magic_state_overhead_factor c
    \<and> compilation_overhead_factor c1 = compilation_overhead_factor c
    \<and> target_runtime c1 = target_runtime c
    \<and> physical_gate_time c1 = physical_gate_time c"
    using s1 by (cases "code_distance c") (auto simp: bind_result_Inr_iff)
  have p2: "logical_qubits c2 = logical_qubits c1 \<and> t_gate_count c2 = t_gate_count c1
    \<and> magic_state_overhead_factor c2 = magic_state_overhead_factor c1
    \<and> compilation_overhead_factor c2 = compilation_overhead_factor c1
    \<and> target_runtime c2 = target_runtime c1
    \<and> physical_gate_time c2 = physical_gate_time c1"
    using s2 by (cases "qubits_per_logical c1") (auto simp: bind_result_Inr_iff)
  have p3: "logical_qubits c3 = logical_qubits c2 \<and> t_gate_count c3 = t_gate_count c2
    \<and> magic_state_overhead_factor c3 = magic_state_overhead_factor c2
    \<and> compilation_overhead_factor c3 = compilation_overhead_factor c2
    \<and> target_runtime c3 = target_runtime c2
    \<and> physical_gate_time c3 = physical_gate_time c2"
    using s3 by (cases "logical_gate_time c2") (auto simp: bind_result_Inr_iff)
  have p4: "logical_qubits c' = logical_qubits c3 \<and> t_gate_count c' = t_gate_count c3
    \<and> magic_state_overhead_factor c' = magic_state_overhead_factor c3
    \<and> compilation_overhead_factor c' = compilation_overhead_factor c3
    \<and> target_runtime c' = target_runtime c3
    \<and> physical_gate_time c' = physical_gate_time c3"
    using s4 by (cases "error_correction_cycle_time c3") (auto simp: bind_result_Inr_iff)
  show ?thesis using p1 p2 p3 p4 by simp
qed

lemma calculate_resources_f64_Inr:
  assumes "calculate_resources_f64 c = Inr e"
  shows "\<exists>qpl t q d x y.
      qubits_per_logical c = Some qpl
    \<and> est_config e = c
    \<and> data_qubits e = logical_qubits c * qpl
    \<and> float_of_int (t_gate_count c) = Inr t \<and> float_of_int qpl = Inr q
    \<and> float_of_int (data_qubits e) = Inr d
    \<and> f64_mul (f64_mul t (magic_state_overhead_factor c)) q = Fin x
    \<and> magic_state_qubits e = py_int x
    \<and> f64_mul d (f64_sub (compilation_overhead_factor c) (Fin 1)) = Fin y
    \<and> compilation_qubits e = py_int y
    \<and> total_physical_qubits e = data_qubits e + magic_state_qubits e + compilation_qubits e"
proof -
  from assms obtain qpl t q mq d cq lgt gates lgc n where
    a: "qubits_per_logical c = Some qpl"
      "float_of_int (t_gate_count c) = Inr t"
      "float_of_int qpl = Inr q"
      "py_int_f64 (f64_mul (f64_mul t (magic_state_overhead_factor c)) q) = Inr mq"
      "float_of_int (logical_qubits c * qpl) = Inr d"
      "py_int_f64 (f64_mul d (f64_sub (compilation_overhead_factor c) (Fin 1))) = Inr cq"
    and e: "e = \<lparr>est_config = c, data_qubits = logical_qubits c * qpl,
                magic_state_qubits = mq, compilation_qubits = cq,
                total_physical_qubits = logical_qubits c * qpl + mq + cq,
                logical_gate_count = lgc,
                space_time_volume = f64_mul n (target_runtime c)\<rparr>"
    unfolding calculate_resources_f64_def Let_def bind_result_Inr_iff require_Inr_iff
    by blast
  from a(4) obtain x where x: "f64_mul (f64_mul t (magic_state_overhead_factor c)) q = Fin x"
    "mq = py_int x" unfolding py_int_f64_Inr_iff by blast
  from a(6) obtain y where y: "f64_mul d (f64_sub (compilation_overhead_factor c) (Fin 1)) = Fin y"
    "cq = py_int y" unfolding py_int_f64_Inr_iff by blast
  show ?thesis
    apply (rule exI[of _ qpl], rule exI[of _ t], rule exI[of _ q], rule exI[of _ d],
        rule exI[of _ x], rule exI[of _ y])
    using a(1,2,3,5) x y by (simp add: e)
qed


lemma new_estimator_f64_Inr:
  assumes "new_DigitalResourceEstimator_f64 c = Inr e"
  shows "DigitalResourceConfig_post_init_f64 c = Inr (est_config e)
       \<and> calculate_resources_f64 (est_config e) = Inr e"
proof -
  from assms obtain c' where c': "DigitalResourceConfig_post_init_f64 c = Inr c'"
    and r: "calculate_resources_f64 c' = Inr e"
    unfolding new_DigitalResourceEstimator_f64_def DigitalResourceEstimator_init_f64_def
      bind_result_Inr_iff by blast
  from calculate_resources_f64_Inr[OF r] have "est_config e = c'" by blast
  with c' r show ?thesis by simp
qed

lemma new_estimator_f64_truncation:
  "new_DigitalResourceEstimator_f64 truncation_config_f64 =
     Inr \<lparr>est_config = truncation_config_f64
            \<lparr>qubits_per_logical := Some 18,
             logical_gate_time := Some (Fin (1351079888211149 / 4503599627370496)),
             error_correction_cycle_time := Some (Fin (1351079888211149 / 4503599627370496))\<rparr>,
          data_qubits = 18, magic_state_qubits = 3601, compilation_qubits = 1,
          total_physical_qubits = 3620, logical_gate_count = 1,
          space_time_volume = Fin 1810\<rparr>"
  by (simp add: new_DigitalResourceEstimator_f64_def DigitalResourceEstimator_init_f64_def
      DigitalResourceConfig_post_init_f64_def calculate_qubits_per_logical_def
      calculate_resources_f64_def truncation_config_f64_def scenario_B_f64_def
      DigitalResourceConfig_defaults_f64_def require_def py_truediv_f64_def py_int_def
      f64_sub_def Let_def
      fl_1e_4 fl_1e_10 fl_1e_3 fl_tenth fl_2_001 fl_1_1 fl_lgt_3 fl_m1 fl_m2
      fl_cof_minus_1 fl_cq fl_gates fl_1810)

subsection \<open>Magic-state and compilation qubits\<close>

text \<open>
  Claim C6, as written, fails. With \<^verbatim>\<open>code_distance=3\<close>,
  \<^verbatim>\<open>magic_state_overhead_factor=2.001\<close> and \<^verbatim>\<open>compilation_overhead_factor=1.1\<close>
  the product \<^verbatim>\<open>100 * 2.001 * 18\<close> is the double \<open>3601.8000000000002\<close>, which rounds to
  3602, and the estimator stores 3601; the product \<^verbatim>\<open>18 * (1.1 - 1)\<close> is the double
  \<open>1.8000000000000016\<close>, which rounds to 2, and the estimator stores 1.
\<close>

theorem qubit_counts_round_counterexample:
  "map_sum id magic_state_qubits (new_DigitalResourceEstimator_f64 truncation_config_f64)
     = Inr 3601
   \<and> f64_mul (f64_mul (Fin 100) (magic_state_overhead_factor truncation_config_f64)) (Fin 18)
     = Fin (7920441961847193 / 2199023255552)
   \<and> round (7920441961847193 / 2199023255552 :: real) = 3602
   \<and> map_sum id compilation_qubits (new_DigitalResourceEstimator_f64 truncation_config_f64)
     = Inr 1
   \<and> f64_mul (Fin 18) (f64_sub (compilation_overhead_factor truncation_config_f64) (Fin 1))
     = Fin (2026619832316725 / 1125899906842624)
   \<and> round (2026619832316725 / 1125899906842624 :: real) = 2"
  by (simp add: new_estimator_f64_truncation)
     (simp add: truncation_config_f64_def scenario_B_f64_def
      DigitalResourceConfig_defaults_f64_def f64_sub_def round_def
      fl_2_001 fl_1_1 fl_m1 fl_m2 fl_cof_minus_1 fl_cq)

text \<open>
  Claim C6, as amended: for every estimator that is constructed,
  \<^verbatim>\<open>magic_state_qubits\<close> is the double product
  \<^verbatim>\<open>t_gate_count * magic_state_overhead_factor * qubits_per_logical\<close> (rounded after each
  multiplication) truncated toward zero, and \<^verbatim>\<open>compilation_qubits\<close> is the double
  product \<^verbatim>\<open>data_qubits * (compilation_overhead_factor - 1)\<close> truncated toward zero:
  the floor of a non-negative product and the ceiling of a negative one. The total is
  the sum of the three counts.
\<close>

theorem qubit_counts_truncated_binary64:
  assumes "new_DigitalResourceEstimator_f64 c = Inr e"
  shows "\<exists>qpl t q d x y.
      qubits_per_logical (est_config e) = Some qpl
    \<and> data_qubits e = logical_qubits c * qpl
    \<and> float_of_int (t_gate_count c) = Inr t \<and> float_of_int qpl = Inr q
    \<and> float_of_int (data_qubits e) = Inr d
    \<and> f64_mul (f64_mul t (magic_state_overhead_factor c)) q = Fin x
    \<and> magic_state_qubits e = (if 0 \<le> x then \<lfloor>x\<rfloor> else \<lceil>x\<rceil>)
    \<and> f64_mul d (f64_sub (compilation_overhead_factor c) (Fin 1)) = Fin y
    \<and> compilation_qubits e = (if 0 \<le> y then \<lfloor>y\<rfloor> else \<lceil>y\<rceil>)
    \<and> total_physical_qubits e = data_qubits e + magic_state_qubits e + compilation_qubits e"
proof -
  from new_estimator_f64_Inr[OF assms]
  have post: "DigitalResourceConfig_post_init_f64 c = Inr (est_config e)"
    and res: "calculate_resources_f64 (est_config e) = Inr e" by simp_all
  note same = post_init_f64_preserves[OF post]
  from calculate_resources_f64_Inr[OF res] show ?thesis
    unfolding py_int_def using same by simp
qed

theorem qubit_counts_truncated_binary64_witness:
  "\<exists>x y. f64_mul (f64_mul (Fin 100) (magic_state_overhead_factor truncation_config_f64))
            (Fin 18) = Fin x
        \<and> (3601 :: int) = (if 0 \<le> x then \<lfloor>x\<rfloor> else \<lceil>x\<rceil>)
        \<and> f64_mul (Fin 18) (f64_sub (compilation_overhead_factor truncation_config_f64) (Fin 1))
            = Fin y
        \<and> (1 :: int) = (if 0 \<le> y then \<lfloor>y\<rfloor> else \<lceil>y\<rceil>)"
  using qubit_counts_truncated_binary64[OF new_estimator_f64_truncation]
  by (auto simp: truncation_config_f64_def scenario_B_f64_def
      DigitalResourceConfig_defaults_f64_def)

subsection \<open>A supplied code distance\<close>






subsection \<open>Derivation of the code distance\<close>

lemma fl_threshold_ratio: "fl (737869762948382080 / 7378697629483821) = Fin 100"
  by (rule fl_normalI[where e = 6 and m = 7036874417766400])
     (simp_all add: round_half_even_def)

lemma fl_cases: "fl x = PInf \<or> fl x = NInf \<or> fl x = Fin (rne x)"
  by (simp add: fl_def Let_def)

lemma fl_not_NaN [simp]: "fl x \<noteq> NaN"
  using fl_cases[of x] by auto

lemma fl_mono:
  assumes "x \<le> y"
  shows "f64_le (fl x) (fl y)"
proof -
  have "rne x \<le> rne y" using assms by (rule rne_mono)
  then show ?thesis
    using f64_huge_pos by (simp add: fl_def Let_def)
qed

lemma fl_nonneg:
  assumes "0 \<le> x"
  shows "f64_le (Fin 0) (fl x)"
  using fl_mono[OF assms] by simp

lemma fl_lower:
  assumes "- 1022 \<le> k" and "2 powi k \<le> x"
  shows "fl x = PInf \<or> (\<exists>r. fl x = Fin r \<and> 2 powi k \<le> r)"
proof -
  have "2 powi k \<le> rne x" using assms by (rule rne_lower)
  moreover have "(0::real) < 2 powi k" by simp
  ultimately have "\<not> rne x \<le> - f64_huge" using f64_huge_pos by linarith
  then show ?thesis using \<open>2 powi k \<le> rne x\<close> by (simp add: fl_def Let_def)
qed

lemma f64_le_NInf [simp]: "f64_le NInf b \<longleftrightarrow> b \<noteq> NaN"
  by (cases b) simp_all

lemma f64_le_PInf [simp]: "f64_le a PInf \<longleftrightarrow> a \<noteq> NaN"
  by (cases a) simp_all

lemma np_log_f64_mono:
  assumes "f64_le (Fin 0) u" and "f64_le u v"
  shows "f64_le (np_log_f64 u) (np_log_f64 v)"
proof (cases u)
  case (Fin x)
  then have x: "0 \<le> x" using assms(1) by simp
  show ?thesis
  proof (cases v)
    case (Fin y)
    then have xy: "x \<le> y" using assms(2) \<open>u = Fin x\<close> by simp
    show ?thesis
    proof (cases "x = 0")
      case True
      then show ?thesis using \<open>u = Fin x\<close> \<open>v = Fin y\<close> xy by simp
    next
      case False
      then have "0 < x" "0 < y" using x xy by simp_all
      then have "ln x \<le> ln y" using xy by simp
      from fl_mono[OF this] show ?thesis
        using \<open>u = Fin x\<close> \<open>v = Fin y\<close> \<open>0 < x\<close> \<open>0 < y\<close> by simp
    qed
  qed (use assms(2) \<open>u = Fin x\<close> x in simp_all)
qed (use assms in \<open>cases v; simp_all\<close>)+

lemma f64_mul_two_mono:
  assumes "f64_le u v"
  shows "f64_le (f64_mul (Fin 2) u) (f64_mul (Fin 2) v)"
proof (cases u)
  case (Fin x)
  show ?thesis
  proof (cases v)
    case (Fin y)
    then have "2 * x \<le> 2 * y" using assms \<open>u = Fin x\<close> by simp
    from fl_mono[OF this] show ?thesis using \<open>u = Fin x\<close> \<open>v = Fin y\<close> by simp
  qed (use assms \<open>u = Fin x\<close> in simp_all)
qed (use assms in \<open>cases v; simp_all\<close>)+

lemma f64_div_mono:
  assumes "f64_le u v" and "f64_le (Fin 0) l"
    and "f64_div u l = Fin s" and "f64_div v l = Fin t"
  shows "s \<le> t"
proof (cases l)
  case (Fin z)
  then have z: "0 \<le> z" using assms(2) by simp
  from assms(3,4) Fin obtain x y where xy: "u = Fin x" "v = Fin y"
    by (cases u; cases v) (auto split: if_splits)
  with assms(3,4) Fin have nz: "z \<noteq> 0" by (auto split: if_splits)
  with z have "0 < z" by simp
  moreover have "x \<le> y" using assms(1) xy by simp
  ultimately have "x / z \<le> y / z" by (simp add: divide_right_mono)
  from fl_mono[OF this] show ?thesis using assms(3,4) xy Fin nz by simp
next
  case PInf
  then show ?thesis using assms(3,4) by (cases u; cases v) auto
qed (use assms in simp_all)

lemma py_int_of_int [simp]: "py_int (of_int k) = k"
  by (simp add: py_int_def)

lemma next_odd_mono:
  fixes k k' :: int
  assumes "k \<le> k'"
  shows "max (if k mod 2 = 0 then k + 1 else k) 3 \<le> max (if k' mod 2 = 0 then k' + 1 else k') 3"
  using assms by (cases "k = k'") (auto; presburger)+

lemma next_odd_odd:
  fixes k :: int
  shows "odd (max (if k mod 2 = 0 then k + 1 else k) 3)"
    and "3 \<le> max (if k mod 2 = 0 then k + 1 else k) 3"
  by (auto simp: max_def; presburger)+

lemma np_ceil_f64_Fin_iff: "np_ceil_f64 x = Fin r \<longleftrightarrow> (\<exists>s. x = Fin s \<and> r = of_int \<lceil>s\<rceil>)"
  by (cases x) auto

lemma calculate_code_distance_f64_Inr_iff:
  "calculate_code_distance_f64 c = Inr d \<longleftrightarrow>
     \<not> f64_le (fl (1 / 100)) (digital_error_rate c)
   \<and> digital_error_rate c \<noteq> Fin 0 \<and> target_logical_error_rate c \<noteq> Fin 0
   \<and> (\<exists>s. f64_div (f64_mul (Fin 2)
                 (np_log_f64 (f64_div (Fin 1) (target_logical_error_rate c))))
               (np_log_f64 (f64_div (fl (1 / 100)) (digital_error_rate c))) = Fin s
          \<and> d = max (if \<lceil>s\<rceil> mod 2 = 0 then \<lceil>s\<rceil> + 1 else \<lceil>s\<rceil>) 3)"
  unfolding calculate_code_distance_f64_def Let_def
  by (auto simp: bind_result_Inr_iff py_truediv_f64_Inr_iff py_int_f64_Inr_iff
      np_ceil_f64_Fin_iff)

lemma post_init_f64_derived:
  assumes "code_distance c = None" and "calculate_code_distance_f64 c = Inr d"
  shows "DigitalResourceConfig_post_init_f64 c
       = DigitalResourceConfig_post_init_f64 (c\<lparr>code_distance := Some d\<rparr>)"
  using assms by (simp add: DigitalResourceConfig_post_init_f64_def)

lemma log_ratio_nonneg:
  assumes "0 < p" and "\<not> f64_le (fl (1 / 100)) (Fin p)"
  shows "f64_le (Fin 0) (np_log_f64 (f64_div (fl (1 / 100)) (Fin p)))"
proof -
  let ?T = "5764607523034235 / 576460752303423488 :: real"
  have p: "p < ?T" using assms(2) by (simp add: fl_one_hundredth)
  then have "2 powi 0 \<le> ?T / p" using assms(1) by simp
  from fl_lower[OF _ this] consider "fl (?T / p) = PInf"
    | r where "fl (?T / p) = Fin r" "1 \<le> r" by auto
  then show ?thesis
  proof cases
    case 1
    then show ?thesis using assms(1) by (simp add: fl_one_hundredth)
  next
    case 2
    then have "0 \<le> ln r" by simp
    from fl_nonneg[OF this] show ?thesis using 2 assms(1) by (simp add: fl_one_hundredth)
  qed
qed

lemma target_log_mono:
  assumes "0 < a'" and "a' \<le> a"
  shows "f64_le (f64_mul (Fin 2) (np_log_f64 (f64_div (Fin 1) (Fin a))))
                (f64_mul (Fin 2) (np_log_f64 (f64_div (Fin 1) (Fin a'))))"
proof -
  have a: "0 < a" using assms by simp
  have "1 / a \<le> 1 / a'" using assms by (simp add: frac_le)
  then have le: "f64_le (f64_div (Fin 1) (Fin a)) (f64_div (Fin 1) (Fin a'))"
    using fl_mono[of "1 / a" "1 / a'"] assms a by simp
  have "0 \<le> 1 / a" using a by simp
  then have "f64_le (Fin 0) (f64_div (Fin 1) (Fin a))"
    using fl_nonneg[of "1 / a"] a by simp
  from f64_mul_two_mono[OF np_log_f64_mono[OF this le]] show ?thesis .
qed

lemma code_distance_f64_mono:
  assumes "digital_error_rate c = Fin p" and "0 < p"
    and "target_logical_error_rate c = Fin a"
    and "0 < a'" and "a' \<le> a"
    and "calculate_code_distance_f64 c = Inr d"
    and "calculate_code_distance_f64 (c\<lparr>target_logical_error_rate := Fin a'\<rparr>) = Inr d'"
  shows "d \<le> d'"
proof -
  let ?L = "np_log_f64 (f64_div (fl (1 / 100)) (Fin p))"
  let ?N = "\<lambda>a. f64_mul (Fin 2) (np_log_f64 (f64_div (Fin 1) (Fin a)))"
  from assms(6) have below: "\<not> f64_le (fl (1 / 100)) (Fin p)"
    unfolding calculate_code_distance_f64_Inr_iff assms(1) by simp
  from assms(6) obtain s where s: "f64_div (?N a) ?L = Fin s"
    and d: "d = max (if \<lceil>s\<rceil> mod 2 = 0 then \<lceil>s\<rceil> + 1 else \<lceil>s\<rceil>) 3"
    unfolding calculate_code_distance_f64_Inr_iff assms(1,3) by blast
  from assms(7) obtain t where t: "f64_div (?N a') ?L = Fin t"
    and d': "d' = max (if \<lceil>t\<rceil> mod 2 = 0 then \<lceil>t\<rceil> + 1 else \<lceil>t\<rceil>) 3"
    unfolding calculate_code_distance_f64_Inr_iff using assms(1) by auto
  have "s \<le> t"
    using target_log_mono[OF assms(4,5)] log_ratio_nonneg[OF assms(2) below] s t
    by (rule f64_div_mono)
  then have "\<lceil>s\<rceil> \<le> \<lceil>t\<rceil>" by (rule ceiling_mono)
  then show ?thesis unfolding d d' by (rule next_odd_mono)
qed

lemma ln_two_ge_half: "1 / 2 \<le> ln (2::real)"
proof -
  have "exp (1 / 2 :: real) \<le> 1 + 2 * (1 / 2)" by (rule real_exp_bound_lemma) simp_all
  then have "exp (1 / 2 :: real) \<le> 2" by simp
  then show ?thesis using ln_ge_iff[of 2 "1 / 2"] by simp
qed

lemma ln_two_powi: "ln ((2::real) powi k) = of_int k * ln 2"
  by (simp only: two_powr_of_int[symmetric] ln_powr)

lemma ln_le_of_le_powi:
  fixes x :: real
  assumes "0 < x" and "x \<le> 2 powi k" and "0 \<le> k"
  shows "ln x \<le> of_int k"
proof -
  have "ln x \<le> ln ((2::real) powi k)" using assms(1,2) by simp
  also have "\<dots> = of_int k * ln 2" by (rule ln_two_powi)
  also have "\<dots> \<le> of_int k * 1"
    using assms(3) ln_2_less_1 by (intro mult_left_mono) simp_all
  finally show ?thesis by simp
qed

lemma fl_range:
  assumes "2 powi j \<le> x" and "x \<le> 2 powi k" and "- 1022 \<le> j" and "- 1022 \<le> k"
    and "k < 1024"
  shows "\<exists>r. fl x = Fin r \<and> 2 powi j \<le> r \<and> r \<le> 2 powi k"
proof -
  have pos: "0 \<le> x" using assms(1) by (rule order_trans[rotated]) simp
  then have "\<bar>x\<bar> \<le> 2 powi k" using assms(2) by simp
  from fl_finite[OF this assms(4,5)] rne_upper[OF assms(4) this] rne_lower[OF assms(3,1)]
  show ?thesis by (simp add: abs_le_iff)
qed

lemma fl_range_nonneg:
  assumes "0 \<le> x" and "x \<le> 2 powi k" and "- 1022 \<le> k" and "k < 1024"
  shows "\<exists>r. fl x = Fin r \<and> 0 \<le> r \<and> r \<le> 2 powi k"
proof -
  have "\<bar>x\<bar> \<le> 2 powi k" using assms(1,2) by simp
  from fl_finite[OF this assms(3,4)] rne_upper[OF assms(3) this] rne_nonneg[OF assms(1)]
  show ?thesis by (simp add: abs_le_iff)
qed

lemma target_log_finite:
  assumes "2 powi (- 1022) \<le> a" and "a \<le> 1"
  shows "\<exists>m. f64_mul (Fin 2) (np_log_f64 (f64_div (Fin 1) (Fin a))) = Fin m
           \<and> 0 \<le> m \<and> m \<le> 2 powi 11"
proof -
  have a: "0 < a" using assms(1) by (rule less_le_trans[rotated]) simp
  have "1 / a \<le> 1 / 2 powi (- 1022)" using assms(1) by (intro divide_left_mono) simp_all
  also have "\<dots> = (2::real) powi 1022"
    by (simp only: power_int_minus_divide[symmetric] minus_minus)
  finally have up: "1 / a \<le> 2 powi 1022" .
  have "2 powi 0 \<le> 1 / a" using assms(2) a by simp
  from fl_range[OF this up] obtain i where i: "fl (1 / a) = Fin i" "1 \<le> i" "i \<le> 2 powi 1022"
    by auto
  have "ln i \<le> of_int 1022" using i(2,3) by (intro ln_le_of_le_powi) simp_all
  also have "\<dots> \<le> (2::real) powi 10" by simp
  finally have "ln i \<le> 2 powi 10" .
  moreover have "0 \<le> ln i" using i(2) by simp
  ultimately obtain n where n: "fl (ln i) = Fin n" "0 \<le> n" "n \<le> 2 powi 10"
    using fl_range_nonneg[of "ln i" 10] by auto
  have "2 * n \<le> 2 powi 11" using n(3) by simp
  moreover have "0 \<le> 2 * n" using n(2) by simp
  ultimately obtain m where m: "fl (2 * n) = Fin m" "0 \<le> m" "m \<le> 2 powi 11"
    using fl_range_nonneg[of "2 * n" 11] by auto
  have "f64_mul (Fin 2) (np_log_f64 (f64_div (Fin 1) (Fin a))) = Fin m"
    using a i n m(1) by simp
  with m(2,3) show ?thesis by blast
qed

lemma log_ratio_large:
  assumes "0 < p" and "p \<le> 1 / 200"
  shows "np_log_f64 (f64_div (fl (1 / 100)) (Fin p)) = PInf
       \<or> (\<exists>l. np_log_f64 (f64_div (fl (1 / 100)) (Fin p)) = Fin l \<and> 1 / 2 \<le> l)"
proof -
  let ?T = "5764607523034235 / 576460752303423488 :: real"
  have "2 * p \<le> ?T" using assms(2) by simp
  then have "2 powi 1 \<le> ?T / p" using assms(1) by (simp add: pos_le_divide_eq)
  from fl_lower[OF _ this] consider "fl (?T / p) = PInf"
    | r where "fl (?T / p) = Fin r" "2 \<le> r" by auto
  then show ?thesis
  proof cases
    case 1
    then show ?thesis using assms(1) by (simp add: fl_one_hundredth)
  next
    case 2
    have "1 / 2 \<le> ln (2::real)" by (rule ln_two_ge_half)
    also have "\<dots> \<le> ln r" using 2(2) by simp
    finally have "2 powi (- 1) \<le> ln r" by simp
    from fl_lower[OF _ this] have "fl (ln r) = PInf \<or> (\<exists>l. fl (ln r) = Fin l \<and> 1 / 2 \<le> l)"
      by simp
    then show ?thesis using 2 assms(1) by (simp add: fl_one_hundredth)
  qed
qed

lemma code_distance_f64_returns:
  assumes "digital_error_rate c = Fin p" and "0 < p" and "p \<le> 1 / 200"
    and "target_logical_error_rate c = Fin a" and "2 powi (- 1022) \<le> a" and "a \<le> 1"
  shows "\<exists>d. calculate_code_distance_f64 c = Inr d"
proof -
  let ?L = "np_log_f64 (f64_div (fl (1 / 100)) (Fin p))"
  let ?N = "f64_mul (Fin 2) (np_log_f64 (f64_div (Fin 1) (Fin a)))"
  have a: "0 < a" using assms(5) by (rule less_le_trans[rotated]) simp
  have below: "\<not> f64_le (fl (1 / 100)) (Fin p)"
    using assms(3) by (simp add: fl_one_hundredth)
  from target_log_finite[OF assms(5,6)] obtain m where m: "?N = Fin m" "0 \<le> m" "m \<le> 2 powi 11"
    by blast
  have "\<exists>s. f64_div ?N ?L = Fin s"
    using log_ratio_large[OF assms(2,3)]
  proof
    assume "?L = PInf"
    then show ?thesis using m(1) by simp
  next
    assume "\<exists>l. ?L = Fin l \<and> 1 / 2 \<le> l"
    then obtain l where l: "?L = Fin l" "1 / 2 \<le> l" by blast
    have "m / l \<le> m / (1 / 2)" using l(2) m(2) by (intro divide_left_mono) simp_all
    also have "\<dots> \<le> 2 powi 12" using m(3) by simp
    finally have "m / l \<le> 2 powi 12" .
    moreover have "0 \<le> m / l" using m(2) l(2) by simp
    ultimately obtain s where "fl (m / l) = Fin s"
      using fl_range_nonneg[of "m / l" 12] by auto
    then show ?thesis using m(1) l by simp
  qed
  then show ?thesis
    unfolding calculate_code_distance_f64_Inr_iff assms(1,4) using below assms(2) a by auto
qed

text \<open>
  Claim C2, as written, fails. Scenario B with \<^verbatim>\<open>target_logical_error_rate=5e-324\<close> has
  \<^verbatim>\<open>code_distance\<close> unset and an error rate of \<^verbatim>\<open>1e-4\<close>, below the threshold; the
  quotient \<^verbatim>\<open>1.0 / p_L\<close> is infinite, so are its logarithm and the quotient by
  \<^verbatim>\<open>log_ratio\<close>, and \<^verbatim>\<open>int\<close> raises \<^verbatim>\<open>OverflowError\<close>: no distance is derived and the
  construction of the configuration fails.
\<close>

theorem code_distance_overflow_counterexample:
  "code_distance smallest_target_f64 = None
   \<and> digital_error_rate smallest_target_f64 = Fin (7378697629483821 / 73786976294838206464)
   \<and> \<not> f64_le (fl (1 / 100)) (digital_error_rate smallest_target_f64)
   \<and> target_logical_error_rate smallest_target_f64 = Fin f64_tiny \<and> 0 < f64_tiny
   \<and> calculate_code_distance_f64 smallest_target_f64 = Inl OverflowError
   \<and> DigitalResourceConfig_post_init_f64 smallest_target_f64 = Inl OverflowError"
proof -
  have "ln 100 \<le> (100::real) - 1" by (rule ln_le_minus_one) simp
  then have "\<bar>ln (100::real)\<bar> \<le> 2 powi 7" by simp
  then have l: "fl (ln 100) = Fin (rne (ln 100))" by (rule fl_finite) simp_all
  have "0 \<le> rne (ln (100::real))" by (rule rne_nonneg) simp
  then have d: "f64_div PInf (Fin (rne (ln 100))) = PInf" by simp
  have inv: "fl (1 / f64_tiny) = PInf" using f64_tiny_recip by (rule fl_overflow)
  have tiny: "f64_tiny \<noteq> 0" "0 < f64_tiny" using f64_tiny_pos by simp_all
  have calc: "calculate_code_distance_f64 smallest_target_f64 = Inl OverflowError"
    by (simp add: calculate_code_distance_f64_def smallest_target_f64_def scenario_B_f64_def
        DigitalResourceConfig_defaults_f64_def py_truediv_f64_def Let_def
        fl_one_hundredth fl_1e_4 fl_1e_10 fl_1e_3 fl_tenth fl_threshold_ratio l inv tiny d)
  have cd: "code_distance smallest_target_f64 = None"
    by (simp add: smallest_target_f64_def scenario_B_f64_def
        DigitalResourceConfig_defaults_f64_def)
  have post: "DigitalResourceConfig_post_init_f64 smallest_target_f64 = Inl OverflowError"
    by (simp add: DigitalResourceConfig_post_init_f64_def cd calc)
  have rest: "digital_error_rate smallest_target_f64
        = Fin (7378697629483821 / 73786976294838206464)"
    "target_logical_error_rate smallest_target_f64 = Fin f64_tiny"
    by (simp_all add: smallest_target_f64_def scenario_B_f64_def
        DigitalResourceConfig_defaults_f64_def fl_1e_4)
  have "\<not> f64_le (fl (1 / 100)) (digital_error_rate smallest_target_f64)"
    by (simp add: rest fl_one_hundredth)
  then show ?thesis using cd rest calc post tiny(2) by simp
qed

text \<open>
  Claim C2, as amended: for a configuration with a positive \<^verbatim>\<open>digital_error_rate\<close>
  \<open>p\<close> and a positive \<^verbatim>\<open>target_logical_error_rate\<close> \<open>p_L\<close>, whenever the derivation
  returns a distance \<open>d\<close>: \<open>d\<close> is \<^verbatim>\<open>ceil(2 * log(1.0 / p_L) / log(0.01 / p))\<close> in
  double arithmetic (each division, logarithm and product rounded to the nearest
  double), rounded up to the next odd integer, then floored at 3; it is odd and at
  least 3; with \<^verbatim>\<open>code_distance\<close> unset, construction goes on as if \<open>d\<close> had been
  supplied; and a smaller positive \<^verbatim>\<open>target_logical_error_rate\<close> at which the
  derivation returns gives a distance that is not smaller. The derivation returns
  whenever \<open>p \<le> 0.005\<close> and \<open>2^(-1022) \<le> p_L \<le> 1\<close>.
\<close>

theorem code_distance_binary64:
  assumes "digital_error_rate c = Fin p" and "0 < p"
    and "target_logical_error_rate c = Fin a" and "0 < a"
  shows "(\<forall>d. calculate_code_distance_f64 c = Inr d \<longrightarrow>
            (\<exists>s. f64_div (f64_mul (Fin 2) (np_log_f64 (f64_div (Fin 1) (Fin a))))
                     (np_log_f64 (f64_div (fl (1 / 100)) (Fin p))) = Fin s
                \<and> d = max (if \<lceil>s\<rceil> mod 2 = 0 then \<lceil>s\<rceil> + 1 else \<lceil>s\<rceil>) 3)
          \<and> odd d \<and> 3 \<le> d
          \<and> (code_distance c = None \<longrightarrow>
                DigitalResourceConfig_post_init_f64 c
                  = DigitalResourceConfig_post_init_f64 (c\<lparr>code_distance := Some d\<rparr>))
          \<and> (\<forall>a' d'. 0 < a' \<and> a' \<le> a
                \<and> calculate_code_distance_f64 (c\<lparr>target_logical_error_rate := Fin a'\<rparr>)
                    = Inr d'
                \<longrightarrow> d \<le> d'))
       \<and> (p \<le> 1 / 200 \<and> 2 powi (- 1022) \<le> a \<and> a \<le> 1
            \<longrightarrow> (\<exists>d. calculate_code_distance_f64 c = Inr d))"
proof (intro conjI allI impI)
  fix d assume d: "calculate_code_distance_f64 c = Inr d"
  then show formula:
    "\<exists>s. f64_div (f64_mul (Fin 2) (np_log_f64 (f64_div (Fin 1) (Fin a))))
                     (np_log_f64 (f64_div (fl (1 / 100)) (Fin p))) = Fin s
                \<and> d = max (if \<lceil>s\<rceil> mod 2 = 0 then \<lceil>s\<rceil> + 1 else \<lceil>s\<rceil>) 3"
    unfolding calculate_code_distance_f64_Inr_iff assms(1,3) by blast
  then show "odd d" "3 \<le> d" using next_odd_odd by blast+
  show "DigitalResourceConfig_post_init_f64 c
          = DigitalResourceConfig_post_init_f64 (c\<lparr>code_distance := Some d\<rparr>)"
    if "code_distance c = None"
    using that d by (rule post_init_f64_derived)
  show "d \<le> d'"
    if "0 < a' \<and> a' \<le> a
        \<and> calculate_code_distance_f64 (c\<lparr>target_logical_error_rate := Fin a'\<rparr>) = Inr d'"
    for a' d'
    using code_distance_f64_mono[OF assms(1,2,3) _ _ d, of a' d'] that by blast
next
  assume "p \<le> 1 / 200 \<and> 2 powi (- 1022) \<le> a \<and> a \<le> 1"
  then show "\<exists>d. calculate_code_distance_f64 c = Inr d"
    using code_distance_f64_returns[OF assms(1,2) _ assms(3)] by blast
qed

theorem code_distance_binary64_witness:
  "\<exists>d. calculate_code_distance_f64 scenario_B_f64 = Inr d \<and> odd d \<and> 3 \<le> d
     \<and> DigitalResourceConfig_post_init_f64 scenario_B_f64
       = DigitalResourceConfig_post_init_f64 (scenario_B_f64\<lparr>code_distance := Some d\<rparr>)"
proof -
  have p: "digital_error_rate scenario_B_f64 = Fin (7378697629483821 / 73786976294838206464)"
    and a: "target_logical_error_rate scenario_B_f64
              = Fin (7737125245533627 / 77371252455336267181195264)"
    and cd: "code_distance scenario_B_f64 = None"
    by (simp_all add: scenario_B_f64_def DigitalResourceConfig_defaults_f64_def
        fl_1e_4 fl_1e_10)
  have "(2::real) powi (- 1022) \<le> 2 powi (- 34)" by (intro power_int_increasing) simp_all
  also have "\<dots> \<le> 7737125245533627 / 77371252455336267181195264" by simp
  finally have low: "(2::real) powi (- 1022) \<le> 7737125245533627 / 77371252455336267181195264" .
  from code_distance_binary64[OF p _ a] cd low show ?thesis by auto
qed


end
